theory Spec2Isabelle
  imports Main "HOL-Library.Sublist"
begin

section \<open>Signature and timestamp detection of pdf-info\<close>

text \<open>
  A shallow embedding of \<^verbatim>\<open>signatures.go\<close> and \<^verbatim>\<open>timestamp_analysis.go\<close>.
  Go strings are byte strings: \<open>string\<close> (a \<open>char list\<close>) models them byte for byte.
  Go's \<open>int\<close> is modelled by \<open>int\<close>: every count below is bounded by the length of
  the file content or by three times the number of objects of the document, so the
  64-bit range is never left.
\<close>

subsection \<open>The functions of package strings that the code calls\<close>

text \<open>\<^verbatim>\<open>strings.Index(s, substr)\<close>: the byte index of the first occurrence, -1 if none.\<close>

fun indexFrom :: "int \<Rightarrow> string \<Rightarrow> string \<Rightarrow> int" where
  "indexFrom i [] substr = (if substr = [] then i else -1)"
| "indexFrom i (c # s) substr =
     (if prefix substr (c # s) then i else indexFrom (i + 1) s substr)"

definition Index :: "string \<Rightarrow> string \<Rightarrow> int" where
  "Index s substr = indexFrom 0 s substr"

text \<open>\<^verbatim>\<open>strings.Contains(s, substr)\<close> is \<^verbatim>\<open>Index(s, substr) >= 0\<close>.\<close>

definition Contains :: "string \<Rightarrow> string \<Rightarrow> bool" where
  "Contains s substr = (0 \<le> Index s substr)"

definition HasPrefix :: "string \<Rightarrow> string \<Rightarrow> bool" where
  "HasPrefix s pre = prefix pre s"

text \<open>The slice expression \<^verbatim>\<open>s[lo:hi]\<close>; every use in the code has \<open>0 \<le> lo \<le> hi \<le> len(s)\<close>.\<close>

definition slice :: "string \<Rightarrow> int \<Rightarrow> int \<Rightarrow> string" where
  "slice s lo hi = take (nat (hi - lo)) (drop (nat lo) s)"

lemma indexFrom_range:
  "indexFrom i s substr = -1 \<and> -1 \<noteq> i \<or>
   i \<le> indexFrom i s substr \<and> indexFrom i s substr + int (length substr) \<le> i + int (length s)"
  if "0 \<le> i"
  using that
proof (induction s arbitrary: i)
  case Nil
  then show ?case by auto
next
  case (Cons c s)
  show ?case
  proof (cases "prefix substr (c # s)")
    case True
    then have "length substr \<le> length (c # s)" by (rule prefix_length_le)
    with True Cons.prems show ?thesis by auto
  next
    case False
    from Cons.prems have "0 \<le> i + 1" by simp
    from Cons.IH [OF this] False Cons.prems show ?thesis by auto
  qed
qed

lemma Index_found_bound:
  "Index s substr \<noteq> -1 \<Longrightarrow> 0 \<le> Index s substr \<and> Index s substr + int (length substr) \<le> int (length s)"
  using indexFrom_range [of 0 s substr] by (auto simp: Index_def)

text \<open>
  \<^verbatim>\<open>strings.Count(s, substr)\<close>: the number of non-overlapping occurrences, found by
  repeated \<^verbatim>\<open>Index\<close> and skipping past each hit. For an empty \<open>substr\<close> Go returns the
  number of runes plus one; the code never passes an empty pattern, and the model
  gives the value for single-byte runes there.
\<close>

function Count :: "string \<Rightarrow> string \<Rightarrow> int" where
  "Count s substr =
     (if substr = [] then int (length s) + 1
      else if Index s substr = -1 then 0
      else 1 + Count (drop (nat (Index s substr) + length substr) s) substr)"
  by pat_completeness auto
termination
proof (relation "measure (\<lambda>(s, substr). length s)")
  show "wf (measure (\<lambda>(s, substr). length s))" by simp
next
  fix s substr :: string
  assume ne: "substr \<noteq> []" and found: "Index s substr \<noteq> -1"
  from Index_found_bound [OF found] have "int (length substr) \<le> int (length s)"
    by linarith
  with ne have "0 < length s"
    by (cases substr) auto
  moreover from ne have "0 < nat (Index s substr) + length substr" by simp
  ultimately show "((drop (nat (Index s substr) + length substr) s, substr), (s, substr))
      \<in> measure (\<lambda>(s, substr). length s)"
    by simp
qed

declare Count.simps [simp del]

lemma Count_nonneg: "0 \<le> Count s substr"
proof (induction s substr rule: Count.induct)
  case (1 s substr)
  then show ?case by (subst Count.simps) auto
qed

lemma Count_pos_iff_Contains: "substr \<noteq> [] \<Longrightarrow> (0 < Count s substr) = Contains s substr"
proof -
  assume ne: "substr \<noteq> []"
  show ?thesis
  proof (cases "Index s substr = -1")
    case True
    with ne show ?thesis by (subst Count.simps) (simp add: Contains_def)
  next
    case False
    have "0 \<le> Count (drop (nat (Index s substr) + length substr) s) substr"
      by (rule Count_nonneg)
    moreover from Index_found_bound [OF False] have "0 \<le> Index s substr" by simp
    ultimately show ?thesis using ne False
      by (subst Count.simps) (simp add: Contains_def)
  qed
qed

subsection \<open>The external collaborators\<close>

text \<open>
  The PDF object model of pdfcpu, as far as the code inspects it: an object is
  \<^verbatim>\<open>nil\<close>, a name, an indirect reference, a dictionary, an array, or of a type the code
  has no case for.
\<close>

datatype error = Error string

datatype object =
    NilObject
  | Name string
  | IndirectRef int int
  | Dict "(string \<times> object) list"
  | Array "object list"
  | OtherObject

type_synonym dict = "(string \<times> object) list"

record xRefTableEntry =
  Object :: object

record xRefTable =
  Size :: int
  Table :: "(int \<times> xRefTableEntry) list"

text \<open>
  \<^verbatim>\<open>*model.Context\<close>: the code tests \<^verbatim>\<open>ctx.RootDict\<close> and \<^verbatim>\<open>ctx.XRefTable\<close> against
  \<^verbatim>\<open>nil\<close>; a \<^verbatim>\<open>nil\<close> context is \<open>None\<close> at the call.
\<close>

record "context" =
  RootDict :: "dict option"
  XRefTable :: "xRefTable option"

text \<open>
  One result of \<^verbatim>\<open>api.ValidateSignatures\<close>: the fields of \<^verbatim>\<open>result.Details\<close>, the status
  code, the problems and the value of \<^verbatim>\<open>result.Certified()\<close>. The type \<open>'t\<close> stands
  for \<^verbatim>\<open>time.Time\<close>.
\<close>

record 't signatureValidationResult =
  Details_FieldName :: string
  Details_SubFilter :: string
  Details_SignerName :: string
  Details_SigningTime :: 't
  Details_Location :: string
  Details_Reason :: string
  Details_ContactInfo :: string
  Result_Status :: int
  Problems :: "string list"
  Certified :: bool

text \<open>
  What the code calls outside the repository, taken as parameters: reading a file
  (\<^verbatim>\<open>ioutil.ReadFile\<close>), the validation service (\<^verbatim>\<open>api.ValidateSignatures(path, all, nil)\<close>),
  the dictionary lookup \<^verbatim>\<open>Dict.Entry(a, b, required)\<close> with its arguments in the order
  the code passes them (the error it also returns is dropped at every call),
  \<^verbatim>\<open>ctx.Dereference\<close>, \<^verbatim>\<open>XRefTable.FindTableEntry\<close>, and \<^verbatim>\<open>IsZero\<close> and \<^verbatim>\<open>Format\<close> of
  \<^verbatim>\<open>time.Time\<close>. The file system is fixed during one analysis.
\<close>

record 't external =
  ReadFile :: "string \<Rightarrow> error + string"
  ValidateSignatures :: "string \<Rightarrow> bool \<Rightarrow> error + 't signatureValidationResult list"
  Entry :: "dict \<Rightarrow> string \<Rightarrow> string \<Rightarrow> bool \<Rightarrow> object \<times> bool"
  Dereference :: "context \<Rightarrow> object \<Rightarrow> error + object"
  FindTableEntry :: "xRefTable \<Rightarrow> int \<Rightarrow> int \<Rightarrow> xRefTableEntry option \<times> bool"
  IsZero :: "'t \<Rightarrow> bool"
  Format :: "'t \<Rightarrow> string \<Rightarrow> string"

subsection \<open>The data model of types.go\<close>

record DigitalSignatureInfo =
  Type :: string
  SubFilter :: string
  SignerName :: string
  SigningTime :: string
  Location :: string
  Reason :: string
  ContactInfo :: string
  FieldName :: string
  IsValid :: bool
  IsCertified :: bool
  Status :: string
  ValidationErrors :: "string list"
  HasTimestamp :: bool
  TimestampType :: string
  TimestampTime :: string
  TimestampAuthority :: string
  TimestampStatus :: string

text \<open>
  \<^verbatim>\<open>PDFInfo\<close>: the three fields the signature analysis reads and writes. Its other
  fields sit in the extension slot of the record scheme and pass through unchanged.
\<close>

record PDFInfo =
  HasDigitalSignatures :: bool
  SignatureCount :: int
  Signatures :: "DigitalSignatureInfo list"

text \<open>A Go \<^verbatim>\<open>map[string]string\<close>; reading a missing key, or a \<^verbatim>\<open>nil\<close> map, gives \<^verbatim>\<open>""\<close>.\<close>

type_synonym strmap = "string \<rightharpoonup> string"

definition mapGet :: "strmap \<Rightarrow> string \<Rightarrow> string" where
  "mapGet m k = (case m k of None \<Rightarrow> [] | Some v \<Rightarrow> v)"

definition len :: "string \<Rightarrow> int" where
  "len s = int (length s)"

subsection \<open>signatures.go: the byte-pattern signature scan\<close>

definition signaturePatterns :: "string list" where
  "signaturePatterns =
     [''/Type/Sig'', ''/FT/Sig'', ''/SigFlags'', ''Adobe.PPKLite'', ''Adobe.PPKMS'',
      ''PKCS#7'', ''pkcs7'', ''/ByteRange'', ''/Contents<'',
      ''/SubFilter/adbe.pkcs7.detached'', ''/SubFilter/adbe.pkcs7.sha1'',
      ''/SubFilter/ETSI.CAdES.detached'', ''/Filter/Adobe.PPKLite'', ''/Filter/Adobe.PPKMS'']"

text \<open>The loop over \<^verbatim>\<open>patterns\<close> (lines 253-262), with \<^verbatim>\<open>signatureCount\<close> as accumulator.\<close>

fun countPatterns :: "string \<Rightarrow> string list \<Rightarrow> int \<Rightarrow> int" where
  "countPatterns content [] signatureCount = signatureCount"
| "countPatterns content (pattern # patterns) signatureCount =
     (let count = Count content pattern in
      countPatterns content patterns
        (if 0 < count then
           (if pattern = ''/Type/Sig'' \<or> pattern = ''/FT/Sig'' then signatureCount + count
            else if signatureCount = 0 then 1
            else signatureCount)
         else signatureCount))"

definition sigDictPatterns :: "string list" where
  "sigDictPatterns = [''/Sig'', ''<</Type/Sig'', ''<</FT/Sig'']"

text \<open>The loop over \<^verbatim>\<open>sigDictPatterns\<close> (lines 273-278); the first hit breaks.\<close>

fun scanSigDictPatterns :: "string \<Rightarrow> string list \<Rightarrow> int \<Rightarrow> int" where
  "scanSigDictPatterns content [] signatureCount = signatureCount"
| "scanSigDictPatterns content (pattern # patterns) signatureCount =
     (if Contains content pattern then 1
      else scanSigDictPatterns content patterns signatureCount)"

definition detectSignaturesByteAnalysis ::
  "('t, 'x) external_scheme \<Rightarrow> string \<Rightarrow> error + (bool \<times> int)" where
  "detectSignaturesByteAnalysis X filePath =
     (case ReadFile X filePath of
        Inl err \<Rightarrow> Inl err
      | Inr content \<Rightarrow>
          (let signatureCount = countPatterns content signaturePatterns 0;
               signatureCount =
                 (if signatureCount = 0
                  then scanSigDictPatterns content sigDictPatterns signatureCount
                  else signatureCount)
           in Inr (0 < signatureCount, signatureCount)))"

subsection \<open>timestamp_analysis.go\<close>

definition timestampPatterns :: "string list" where
  "timestampPatterns =
     [''/SubFilter/ETSI.RFC3161'', ''/SubFilter/adbe.pkcs7.detached'', ''/M(D:'', ''/TS'',
      ''1.2.840.113549.1.9.16.1.4'', ''TimeStampToken'', ''TSATimeStamp'', ''timestampToken'',
      ''/Type/TSA'', ''Serpro'', ''Assinador Serpro'', ''ICP-Brasil'', ''AC Timestamping'',
      ''Carimbo'', ''D:20'', ''/ByteRange'']"

text \<open>The type label chosen from the text of the matched pattern (lines 65-79).\<close>

definition timestampTypeOf :: "string \<Rightarrow> string" where
  "timestampTypeOf pattern =
     (if Contains pattern ''RFC3161'' then ''RFC3161''
      else if Contains pattern ''adbe.pkcs7'' then ''PKCS#7''
      else if Contains pattern ''TSA'' then ''TSA''
      else if Contains pattern ''Serpro'' \<or> Contains pattern ''Assinador Serpro'' then ''Serpro TSA''
      else if Contains pattern ''ICP-Brasil'' then ''ICP-Brasil''
      else if Contains pattern ''ByteRange'' then ''Embedded''
      else ''Standard'')"

text \<open>
  The loop over \<^verbatim>\<open>timestampPatterns\<close> (lines 59-82) on the pair of \<^verbatim>\<open>hasTimestamp\<close> and
  \<^verbatim>\<open>timestampInfo\<close>; the first hit breaks.
\<close>

fun scanTimestampPatterns :: "string \<Rightarrow> string list \<Rightarrow> bool \<times> strmap \<Rightarrow> bool \<times> strmap" where
  "scanTimestampPatterns content [] st = st"
| "scanTimestampPatterns content (pattern # patterns) st =
     (if Contains content pattern
      then (True, (snd st)(''type'' \<mapsto> timestampTypeOf pattern))
      else scanTimestampPatterns content patterns st)"

definition timePatterns :: "string list" where
  "timePatterns = [''D:202'', ''D:201'']"

text \<open>The value stored under \<^verbatim>\<open>"time"\<close> for a hit at index \<open>idx\<close> (lines 94-121).\<close>

definition timeAt :: "string \<Rightarrow> int \<Rightarrow> string" where
  "timeAt content idx =
     (let endIdx = idx + 20;
          endIdx = (if len content < endIdx then len content else endIdx);
          timestampStr = slice content idx endIdx
      in if 15 \<le> len timestampStr then
           (let rawTime = timestampStr in
            if HasPrefix rawTime ''D:'' \<and> 15 \<le> len rawTime then
              (let year = slice rawTime 2 6;
                   month = slice rawTime 6 8;
                   day = slice rawTime 8 10;
                   hour = slice rawTime 10 12;
                   minute = slice rawTime 12 14;
                   second = (if 16 \<le> len rawTime then slice rawTime 14 16 else ''00'')
               in year @ ''-'' @ month @ ''-'' @ day @ '' '' @ hour @ '':'' @ minute @ '':'' @ second)
            else slice rawTime 0 15)
         else timestampStr)"

fun scanTimePatterns :: "string \<Rightarrow> string list \<Rightarrow> strmap \<Rightarrow> strmap" where
  "scanTimePatterns content [] timestampInfo = timestampInfo"
| "scanTimePatterns content (timePattern # patterns) timestampInfo =
     (if Index content timePattern \<noteq> -1
      then timestampInfo(''time'' \<mapsto> timeAt content (Index content timePattern))
      else scanTimePatterns content patterns timestampInfo)"

definition authorityPatterns :: "string list" where
  "authorityPatterns =
     [''CN='', ''O='', ''TSA'', ''TimeStamp'', ''Serpro'', ''Assinador Serpro'', ''ICP-Brasil'',
      ''AC Timestamping'', ''Autoridade Certificadora'', ''Certificate Authority'']"

text \<open>The label of line 159, byte for byte as the file has it.\<close>

definition serproAuthority :: string where
  "serproAuthority =
     ''Serpro - Servi'' @ [CHR 0xC3, CHR 0x83, CHR 0xC2, CHR 0xA7] @
     ''o Federal de Processamento de Dados''"

text \<open>The value stored under \<^verbatim>\<open>"authority"\<close> for a hit at index \<open>idx\<close> (lines 142-167).\<close>

definition authorityAt :: "string \<Rightarrow> int \<Rightarrow> string" where
  "authorityAt content idx =
     (let endIdx = idx + 80;
          endIdx = (if len content < endIdx then len content else endIdx);
          authStr = slice content idx endIdx;
          authStr = (if Index authStr [CHR 0x0A] \<noteq> -1
                     then slice authStr 0 (Index authStr [CHR 0x0A]) else authStr);
          authStr = (if Index authStr [CHR 0x00] \<noteq> -1
                     then slice authStr 0 (Index authStr [CHR 0x00]) else authStr)
      in if Contains authStr ''Serpro'' \<or> Contains authStr ''Assinador Serpro'' then serproAuthority
         else if Contains authStr ''ICP-Brasil'' then ''ICP-Brasil Certificate Authority''
         else (if 40 < len authStr then slice authStr 0 40 @ ''...'' else authStr))"

fun scanAuthorityPatterns :: "string \<Rightarrow> string list \<Rightarrow> strmap \<Rightarrow> strmap" where
  "scanAuthorityPatterns content [] timestampInfo = timestampInfo"
| "scanAuthorityPatterns content (authPattern # patterns) timestampInfo =
     (if Index content authPattern \<noteq> -1
      then timestampInfo(''authority'' \<mapsto> authorityAt content (Index content authPattern))
      else scanAuthorityPatterns content patterns timestampInfo)"

text \<open>The defaults of lines 172-178.\<close>

definition setDefaults :: "strmap \<Rightarrow> strmap" where
  "setDefaults timestampInfo =
     (let timestampInfo =
            (if mapGet timestampInfo ''time'' = [] then timestampInfo(''time'' \<mapsto> ''Unknown'')
             else timestampInfo);
          timestampInfo =
            (if mapGet timestampInfo ''authority'' = []
             then timestampInfo(''authority'' \<mapsto> ''Unknown'')
             else timestampInfo)
      in timestampInfo)"

definition detectTimestampByteAnalysis ::
  "('t, 'x) external_scheme \<Rightarrow> string \<Rightarrow> bool \<times> strmap" where
  "detectTimestampByteAnalysis X filePath =
     (case ReadFile X filePath of
        Inl err \<Rightarrow> (False, Map.empty)
      | Inr content \<Rightarrow>
          (let st = scanTimestampPatterns content timestampPatterns (False, Map.empty);
               hasTimestamp = fst st;
               timestampInfo = snd st
           in if hasTimestamp then
                (let timestampInfo = scanTimePatterns content timePatterns timestampInfo;
                     timestampInfo = scanAuthorityPatterns content authorityPatterns timestampInfo
                 in (hasTimestamp, setDefaults timestampInfo))
              else (hasTimestamp, timestampInfo)))"

definition analyzeTimestamp ::
  "('t, 'x) external_scheme \<Rightarrow> string \<Rightarrow> DigitalSignatureInfo \<Rightarrow> DigitalSignatureInfo" where
  "analyzeTimestamp X filePath sigInfo =
     (let sigInfo = sigInfo\<lparr>HasTimestamp := False, TimestampType := [], TimestampTime := [],
            TimestampAuthority := [], TimestampStatus := ''None''\<rparr>;
          r = detectTimestampByteAnalysis X filePath
      in if fst r then
           sigInfo\<lparr>HasTimestamp := True,
             TimestampType := mapGet (snd r) ''type'',
             TimestampTime := mapGet (snd r) ''time'',
             TimestampAuthority := mapGet (snd r) ''authority'',
             TimestampStatus := ''Present''\<rparr>
         else sigInfo)"

subsection \<open>signatures.go: the structural locator\<close>

text \<open>
  \<^verbatim>\<open>processAcroForm\<close> (lines 219-223), commented in the source as a placeholder: it
  returns 0 and leaves \<^verbatim>\<open>info\<close> as it is.
\<close>

definition processAcroForm ::
  "('t, 'x) external_scheme \<Rightarrow> context \<Rightarrow> object \<Rightarrow> 'z PDFInfo_scheme \<Rightarrow> int" where
  "processAcroForm X ctx acroFormObj info = 0"

text \<open>\<^verbatim>\<open>resolveFieldDict\<close> and \<^verbatim>\<open>isSignatureField\<close> (lines 285-312); nothing calls them.\<close>

definition resolveFieldDict ::
  "('t, 'x) external_scheme \<Rightarrow> context \<Rightarrow> object \<Rightarrow> dict option" where
  "resolveFieldDict X ctx fieldRef =
     (case fieldRef of
        IndirectRef n g \<Rightarrow>
          (case Dereference X ctx fieldRef of
             Inl err \<Rightarrow> None
           | Inr resolved \<Rightarrow> (case resolved of Dict d \<Rightarrow> Some d | _ \<Rightarrow> None))
      | Dict d \<Rightarrow> Some d
      | _ \<Rightarrow> None)"

definition isSignatureField :: "('t, 'x) external_scheme \<Rightarrow> dict option \<Rightarrow> bool" where
  "isSignatureField X fieldDict =
     (case fieldDict of
        None \<Rightarrow> False
      | Some d \<Rightarrow>
          (case Entry X d ''FT'' [] False of
             (ftObj, found) \<Rightarrow>
               found \<and> (case ftObj of Name nameObj \<Rightarrow> nameObj = ''Sig'' | _ \<Rightarrow> False)))"

text \<open>\<^verbatim>\<open>hasSignatureIndicators\<close> (lines 194-216).\<close>

definition hasSigFlags :: "('t, 'x) external_scheme \<Rightarrow> dict \<Rightarrow> bool" where
  "hasSigFlags X d =
     (case Entry X d ''SigFlags'' [] False of
        (sigFlagsObj, found) \<Rightarrow> found \<and> sigFlagsObj \<noteq> NilObject)"

definition hasSignatureIndicators :: "('t, 'x) external_scheme \<Rightarrow> context \<Rightarrow> bool" where
  "hasSignatureIndicators X ctx =
     (case RootDict ctx of
        None \<Rightarrow> False
      | Some root \<Rightarrow>
          (case Entry X root ''AcroForm'' [] False of
             (acroFormObj, found) \<Rightarrow>
               if found \<and> acroFormObj \<noteq> NilObject then
                 (case acroFormObj of
                    IndirectRef n g \<Rightarrow>
                      (case Dereference X ctx acroFormObj of
                         Inl err \<Rightarrow> False
                       | Inr resolved \<Rightarrow>
                           (case resolved of Dict d \<Rightarrow> hasSigFlags X d | _ \<Rightarrow> False))
                  | Dict d \<Rightarrow> hasSigFlags X d
                  | _ \<Rightarrow> False)
               else False))"

text \<open>
  The three checks on one dictionary of the object table (lines 136-168), each adding
  to \<^verbatim>\<open>signatureCount\<close>.
\<close>

definition isNameSig :: "object \<times> bool \<Rightarrow> bool" where
  "isNameSig r =
     (case r of (obj, found) \<Rightarrow>
        found \<and> (case obj of Name nameObj \<Rightarrow> nameObj = ''Sig'' | _ \<Rightarrow> False))"

definition isSignatureValue ::
  "('t, 'x) external_scheme \<Rightarrow> context \<Rightarrow> object \<times> bool \<Rightarrow> bool" where
  "isSignatureValue X ctx r =
     (case r of (vObj, found) \<Rightarrow>
        if found \<and> vObj \<noteq> NilObject then
          (case vObj of
             IndirectRef n g \<Rightarrow>
               (case Dereference X ctx vObj of
                  Inl err \<Rightarrow> False
                | Inr sigDict \<Rightarrow>
                    (case sigDict of
                       Dict sigDictTyped \<Rightarrow>
                         (case Entry X sigDictTyped ''Filter'' [] False of
                            (filterObj, found) \<Rightarrow>
                              found \<and>
                              (case filterObj of
                                 Name filterName \<Rightarrow>
                                   filterName = ''Adobe.PPKLite'' \<or>
                                   filterName = ''Adobe.PPKMS'' \<or>
                                   Contains filterName ''PKCS''
                               | _ \<Rightarrow> False))
                     | _ \<Rightarrow> False))
           | _ \<Rightarrow> False)
        else False)"

definition scanDict ::
  "('t, 'x) external_scheme \<Rightarrow> context \<Rightarrow> dict \<Rightarrow> int \<Rightarrow> int" where
  "scanDict X ctx d signatureCount =
     (let signatureCount =
            (if isNameSig (Entry X d ''Type'' [] False) then signatureCount + 1
             else signatureCount);
          signatureCount =
            (if isNameSig (Entry X d ''FT'' [] False) then signatureCount + 1
             else signatureCount);
          signatureCount =
            (if isSignatureValue X ctx (Entry X d ''V'' [] False) then signatureCount + 1
             else signatureCount)
      in signatureCount)"

text \<open>The body of the loop over the object numbers (lines 130-169).\<close>

definition scanTableEntry ::
  "('t, 'x) external_scheme \<Rightarrow> context \<Rightarrow> xRefTable \<Rightarrow> int \<Rightarrow> int \<Rightarrow> int" where
  "scanTableEntry X ctx xt signatureCount i =
     (case fst (FindTableEntry X xt i 0) of
        None \<Rightarrow> signatureCount
      | Some entry \<Rightarrow>
          if Object entry = NilObject then signatureCount
          else
            (case Object entry of
               Dict d \<Rightarrow> scanDict X ctx d signatureCount
             | _ \<Rightarrow> signatureCount))"

text \<open>
  The value of the local \<^verbatim>\<open>signatureCount\<close> at line 182, after the table scan and the
  indicator fallback; \<open>signatureFound\<close> is the outcome of the AcroForm method.
\<close>

definition locatorEstimate ::
  "('t, 'x) external_scheme \<Rightarrow> context \<Rightarrow> bool \<Rightarrow> int" where
  "locatorEstimate X ctx signatureFound =
     (let signatureCount =
            (case XRefTable ctx of
               None \<Rightarrow> 0
             | Some xt \<Rightarrow> foldl (scanTableEntry X ctx xt) 0 [1..Size xt])
      in if \<not> signatureFound \<and> signatureCount = 0
         then (if hasSignatureIndicators X ctx then 1 else signatureCount)
         else signatureCount)"

definition detectSignatureFields ::
  "('t, 'x) external_scheme \<Rightarrow> context option \<Rightarrow> 'z PDFInfo_scheme \<Rightarrow> bool \<times> 'z PDFInfo_scheme" where
  "detectSignatureFields X ctxo info =
     (case ctxo of
        None \<Rightarrow> (False, info)
      | Some ctx \<Rightarrow>
          (case RootDict ctx of
             None \<Rightarrow> (False, info)
           | Some root \<Rightarrow>
               (let signatureFound =
                      (case Entry X root ''AcroForm'' [] False of
                         (acroFormObj, found) \<Rightarrow>
                           found \<and> acroFormObj \<noteq> NilObject \<and>
                           0 < processAcroForm X ctx acroFormObj info);
                    signatureCount = locatorEstimate X ctx signatureFound
                in if 0 < signatureCount \<or> signatureFound then
                     (True, info\<lparr>HasDigitalSignatures := True,
                        SignatureCount :=
                          (if SignatureCount info < signatureCount then signatureCount
                           else SignatureCount info)\<rparr>)
                   else (False, info))))"

subsection \<open>signatures.go: the reconciliation\<close>

definition formatTime :: "('t, 'x) external_scheme \<Rightarrow> 't \<Rightarrow> string" where
  "formatTime X t = (if IsZero X t then [] else Format X t ''2006-01-02 15:04:05'')"

text \<open>The record built from one validation result (lines 66-98), before its timestamp.\<close>

definition newSignatureInfo ::
  "('t, 'x) external_scheme \<Rightarrow> 't signatureValidationResult \<Rightarrow> DigitalSignatureInfo" where
  "newSignatureInfo X result =
     \<lparr>Type = (if Certified result then ''Certified'' else ''Approval''),
      SubFilter = Details_SubFilter result,
      SignerName = Details_SignerName result,
      SigningTime = formatTime X (Details_SigningTime result),
      Location = Details_Location result,
      Reason = Details_Reason result,
      ContactInfo = Details_ContactInfo result,
      FieldName = Details_FieldName result,
      IsValid = (Result_Status result = 1),
      IsCertified = Certified result,
      Status = (if Result_Status result = 1 then ''Valid''
                else if Result_Status result = 2 then ''Invalid''
                else ''Unknown''),
      ValidationErrors = (if 0 < length (Problems result) then Problems result else []),
      HasTimestamp = False,
      TimestampType = [],
      TimestampTime = [],
      TimestampAuthority = [],
      TimestampStatus = []\<rparr>"

text \<open>One round of the loop over the results (lines 65-104): build, analyse, append.\<close>

definition appendSignature ::
  "('t, 'x) external_scheme \<Rightarrow> string \<Rightarrow> DigitalSignatureInfo list \<Rightarrow>
   't signatureValidationResult \<Rightarrow> DigitalSignatureInfo list" where
  "appendSignature X filePath signatures result =
     signatures @ [analyzeTimestamp X filePath (newSignatureInfo X result)]"

text \<open>
  Lines 16-30 of \<^verbatim>\<open>analyzeDigitalSignatures\<close>: the structural locator, then the byte scan
  if the locator found nothing. The result is \<^verbatim>\<open>hasSignatureFields\<close> and the record.
\<close>

definition byteScanStage ::
  "('t, 'x) external_scheme \<Rightarrow> string \<Rightarrow> bool \<times> 'z PDFInfo_scheme \<Rightarrow> bool \<times> 'z PDFInfo_scheme" where
  "byteScanStage X filePath st =
     (case st of (hasSignatureFields, info) \<Rightarrow>
        if \<not> hasSignatureFields then
          (case detectSignaturesByteAnalysis X filePath of
             Inl err \<Rightarrow> (hasSignatureFields, info)
           | Inr (hasRawSignatures, rawCount) \<Rightarrow>
               if hasRawSignatures
               then (True, info\<lparr>HasDigitalSignatures := True, SignatureCount := rawCount\<rparr>)
               else (hasSignatureFields, info))
        else (hasSignatureFields, info))"

text \<open>Lines 32-104: the validation service and what it overrides.\<close>

definition validationStage ::
  "('t, 'x) external_scheme \<Rightarrow> string \<Rightarrow> bool \<times> 'z PDFInfo_scheme \<Rightarrow> 'z PDFInfo_scheme" where
  "validationStage X filePath st =
     (case st of (hasSignatureFields, info) \<Rightarrow>
        (case ValidateSignatures X filePath True of
           Inl err \<Rightarrow>
             if hasSignatureFields then info\<lparr>HasDigitalSignatures := True\<rparr>
             else info\<lparr>HasDigitalSignatures := False, SignatureCount := 0\<rparr>
         | Inr results \<Rightarrow>
             if length results = 0 then
               (if hasSignatureFields then info\<lparr>HasDigitalSignatures := True\<rparr>
                else info\<lparr>HasDigitalSignatures := False, SignatureCount := 0\<rparr>)
             else
               info\<lparr>HasDigitalSignatures := True,
                 SignatureCount := int (length results),
                 Signatures := foldl (appendSignature X filePath) [] results\<rparr>))"

definition analyzeDigitalSignatures ::
  "('t, 'x) external_scheme \<Rightarrow> string \<Rightarrow> context option \<Rightarrow> 'z PDFInfo_scheme \<Rightarrow> 'z PDFInfo_scheme" where
  "analyzeDigitalSignatures X filePath ctx info =
     validationStage X filePath (byteScanStage X filePath (detectSignatureFields X ctx info))"

text \<open>
  The values \<^verbatim>\<open>info.SignatureCount\<close> holds during one call of
  \<^verbatim>\<open>analyzeDigitalSignatures\<close>: at entry, after the locator, after the byte scan, at
  return.
\<close>

definition countTrace ::
  "('t, 'x) external_scheme \<Rightarrow> string \<Rightarrow> context option \<Rightarrow> 'z PDFInfo_scheme \<Rightarrow> int list" where
  "countTrace X filePath ctx info =
     [SignatureCount info,
      SignatureCount (snd (detectSignatureFields X ctx info)),
      SignatureCount (snd (byteScanStage X filePath (detectSignatureFields X ctx info))),
      SignatureCount (analyzeDigitalSignatures X filePath ctx info)]"

subsection \<open>Concrete inputs\<close>

text \<open>
  A document model for the examples. pdfcpu declares
  \<^verbatim>\<open>func (d Dict) Entry(dictName, key string, required bool)\<close>: the first string names the
  dictionary in error messages, the second is the key looked up; an absent or \<^verbatim>\<open>nil\<close>
  value is reported as not found. References resolve through the object table.
\<close>

definition sampleEntry :: "dict \<Rightarrow> string \<Rightarrow> string \<Rightarrow> bool \<Rightarrow> object \<times> bool" where
  "sampleEntry d dictName key required =
     (case map_of d key of
        None \<Rightarrow> (NilObject, False)
      | Some obj \<Rightarrow> (if obj = NilObject then (NilObject, False) else (obj, True)))"

definition sampleFindTableEntry :: "xRefTable \<Rightarrow> int \<Rightarrow> int \<Rightarrow> xRefTableEntry option \<times> bool" where
  "sampleFindTableEntry xt objNr genNr =
     (case map_of (Table xt) objNr of
        None \<Rightarrow> (None, False)
      | Some entry \<Rightarrow> (Some entry, True))"

definition sampleDereference :: "context \<Rightarrow> object \<Rightarrow> error + object" where
  "sampleDereference ctx obj =
     (case obj of
        IndirectRef objNr genNr \<Rightarrow>
          (case XRefTable ctx of
             None \<Rightarrow> Inl (Error ''no object table'')
           | Some xt \<Rightarrow>
               (case map_of (Table xt) objNr of
                  None \<Rightarrow> Inr NilObject
                | Some entry \<Rightarrow> Inr (Object entry)))
      | _ \<Rightarrow> Inr obj)"

text \<open>
  One file, \<^verbatim>\<open>doc.pdf\<close>, with the given bytes (or unreadable, for \<open>None\<close>), and a
  validation service with the given outcome. \<^verbatim>\<open>time.Time\<close> is instantiated by \<open>unit\<close>,
  the zero time.
\<close>

definition sampleExternal ::
  "string option \<Rightarrow> error + unit signatureValidationResult list \<Rightarrow> unit external" where
  "sampleExternal bytes validation =
     \<lparr>ReadFile = (\<lambda>path.
        if path = ''doc.pdf''
        then (case bytes of None \<Rightarrow> Inl (Error ''permission denied'') | Some content \<Rightarrow> Inr content)
        else Inl (Error ''no such file'')),
      ValidateSignatures = (\<lambda>path all. validation),
      Entry = sampleEntry,
      Dereference = sampleDereference,
      FindTableEntry = sampleFindTableEntry,
      IsZero = (\<lambda>t. True),
      Format = (\<lambda>t layout. [])\<rparr>"

text \<open>
  A parsed document of two objects: the catalog, and a dictionary whose entry under the
  empty name is \<^verbatim>\<open>/Sig\<close>, which is what the lookups of the table scan read.
\<close>

definition sampleContext :: "context" where
  "sampleContext =
     \<lparr>RootDict = Some [(''Type'', Name ''Catalog'')],
      XRefTable = Some
        \<lparr>Size = 3,
         Table = [(1, \<lparr>Object = Dict [(''Type'', Name ''Catalog'')]\<rparr>),
                  (2, \<lparr>Object = Dict [([], Name ''Sig'')]\<rparr>)]\<rparr>\<rparr>"

definition sampleResult :: "bool \<Rightarrow> unit signatureValidationResult" where
  "sampleResult certified =
     \<lparr>Details_FieldName = ''Signature1'',
      Details_SubFilter = ''adbe.pkcs7.detached'',
      Details_SignerName = ''Signer'',
      Details_SigningTime = (),
      Details_Location = [],
      Details_Reason = [],
      Details_ContactInfo = [],
      Result_Status = 1,
      Problems = [],
      Certified = certified\<rparr>"

definition newPDFInfo :: PDFInfo where
  "newPDFInfo = \<lparr>HasDigitalSignatures = False, SignatureCount = 0, Signatures = []\<rparr>"

subsection \<open>Notions used in the statements\<close>

text \<open>The patterns of \<^verbatim>\<open>patterns\<close> other than \<^verbatim>\<open>/Type/Sig\<close> and \<^verbatim>\<open>/FT/Sig\<close>.\<close>

definition corroboratingPatterns :: "string list" where
  "corroboratingPatterns =
     [''/SigFlags'', ''Adobe.PPKLite'', ''Adobe.PPKMS'',
      ''PKCS#7'', ''pkcs7'', ''/ByteRange'', ''/Contents<'',
      ''/SubFilter/adbe.pkcs7.detached'', ''/SubFilter/adbe.pkcs7.sha1'',
      ''/SubFilter/ETSI.CAdES.detached'', ''/Filter/Adobe.PPKLite'', ''/Filter/Adobe.PPKMS'']"

text \<open>The validation call fails or returns no result (the branches of lines 34 and 47).\<close>

definition noValidationResults :: "('t, 'x) external_scheme \<Rightarrow> string \<Rightarrow> bool" where
  "noValidationResults X filePath =
     (case ValidateSignatures X filePath True of
        Inl err \<Rightarrow> True
      | Inr results \<Rightarrow> length results = 0)"

text \<open>
  The count of the byte scan in closed form: the occurrences of the two counted
  patterns summed; failing that, 1 if any other pattern of the list or any of the three
  dictionary markers occurs.
\<close>

definition byteScanCount :: "string \<Rightarrow> int" where
  "byteScanCount content =
     (let n = Count content ''/Type/Sig'' + Count content ''/FT/Sig'' in
      if n \<noteq> 0 then n
      else if \<exists>p\<in>set corroboratingPatterns. Contains content p then 1
      else if Contains content ''/Sig'' \<or> Contains content ''<</Type/Sig'' \<or>
              Contains content ''<</FT/Sig'' then 1
      else 0)"

text \<open>The five timestamp fields of a record.\<close>

definition timestampFields :: "DigitalSignatureInfo \<Rightarrow> bool \<times> string \<times> string \<times> string \<times> string" where
  "timestampFields s =
     (HasTimestamp s, TimestampType s, TimestampTime s, TimestampAuthority s, TimestampStatus s)"

section \<open>Properties\<close>

subsection \<open>The byte-pattern signature scan\<close>

lemma signaturePatterns_split:
  "signaturePatterns = ''/Type/Sig'' # ''/FT/Sig'' # corroboratingPatterns"
  by (simp add: signaturePatterns_def corroboratingPatterns_def)

lemma corroborating_other:
  "\<forall>p\<in>set corroboratingPatterns. p \<noteq> ''/Type/Sig'' \<and> p \<noteq> ''/FT/Sig'' \<and> p \<noteq> []"
  by (simp add: corroboratingPatterns_def)

lemma countPatterns_step:
  assumes "q \<noteq> ''/Type/Sig''" "q \<noteq> ''/FT/Sig''" "q \<noteq> []"
  shows "countPatterns content (q # ps) n =
      countPatterns content ps (if Contains content q then (if n = 0 then 1 else n) else n)"
proof -
  have pos: "(0 < Count content q) = Contains content q"
    using assms(3) by (rule Count_pos_iff_Contains)
  show ?thesis
    using assms(1,2) by (simp add: Let_def pos)
qed

lemma countPatterns_corroborating:
  "countPatterns content ps n =
     (if n = 0 \<and> (\<exists>p\<in>set ps. Contains content p) then 1 else n)"
  if "\<forall>p\<in>set ps. p \<noteq> ''/Type/Sig'' \<and> p \<noteq> ''/FT/Sig'' \<and> p \<noteq> []"
  using that
proof (induction ps arbitrary: n)
  case Nil
  show ?case by simp
next
  case (Cons q ps)
  from Cons.prems have q: "q \<noteq> ''/Type/Sig''" "q \<noteq> ''/FT/Sig''" "q \<noteq> []"
    and rest: "\<forall>p\<in>set ps. p \<noteq> ''/Type/Sig'' \<and> p \<noteq> ''/FT/Sig'' \<and> p \<noteq> []"
    by simp_all
  show ?case
    unfolding countPatterns_step [OF q] Cons.IH [OF rest]
    by (cases "Contains content q"; cases "n = 0"; simp)
qed

lemma countPatterns_signaturePatterns:
  "countPatterns content signaturePatterns 0 =
     (if Count content ''/Type/Sig'' + Count content ''/FT/Sig'' = 0 \<and>
         (\<exists>p\<in>set corroboratingPatterns. Contains content p) then 1
      else Count content ''/Type/Sig'' + Count content ''/FT/Sig'')"
proof -
  have c1: "0 \<le> Count content ''/Type/Sig''" and c2: "0 \<le> Count content ''/FT/Sig''"
    by (rule Count_nonneg)+
  have "countPatterns content signaturePatterns 0 =
      countPatterns content corroboratingPatterns
        (Count content ''/Type/Sig'' + Count content ''/FT/Sig'')"
    unfolding signaturePatterns_split using c1 c2 by (simp add: Let_def)
  then show ?thesis
    by (simp only: countPatterns_corroborating [OF corroborating_other])
qed

lemma detectSignaturesByteAnalysis_eq:
  assumes "ReadFile X filePath = Inr content"
  shows "detectSignaturesByteAnalysis X filePath =
           Inr (0 < byteScanCount content, byteScanCount content)"
proof -
  have dict: "scanSigDictPatterns content sigDictPatterns 0 =
      (if Contains content ''/Sig'' \<or> Contains content ''<</Type/Sig'' \<or>
          Contains content ''<</FT/Sig'' then 1 else 0)"
    by (simp add: sigDictPatterns_def)
  show ?thesis
    unfolding detectSignaturesByteAnalysis_def assms byteScanCount_def
      countPatterns_signaturePatterns Let_def
    by (simp add: dict)
qed

lemma validationStage_none:
  "noValidationResults X filePath \<Longrightarrow>
   validationStage X filePath (found, info) =
     (if found then info\<lparr>HasDigitalSignatures := True\<rparr>
      else info\<lparr>HasDigitalSignatures := False, SignatureCount := 0\<rparr>)"
  by (simp add: validationStage_def noValidationResults_def split: sum.splits)

lemma byteScanStage_not_found:
  "ReadFile X filePath = Inr content \<Longrightarrow>
   byteScanStage X filePath (False, info) =
     (if 0 < byteScanCount content
      then (True, info\<lparr>HasDigitalSignatures := True, SignatureCount := byteScanCount content\<rparr>)
      else (False, info))"
  by (simp add: byteScanStage_def detectSignaturesByteAnalysis_eq)

text \<open>
  C4. For every readable file the byte scan returns the count in closed form, the sum of
  the non-overlapping occurrences of \<^verbatim>\<open>/Type/Sig\<close> and \<^verbatim>\<open>/FT/Sig\<close>, else 1 if a
  corroborating pattern occurs, else 1 if a dictionary marker occurs, else 0, together
  with the boolean \<open>count > 0\<close>. A file with two \<^verbatim>\<open>/Type/Sig\<close> and one \<^verbatim>\<open>/FT/Sig\<close>, when
  the locator finds nothing and validation gives no result, ends with
  \<^verbatim>\<open>SignatureCount = 3\<close>.
\<close>

theorem byte_scan_count:
  assumes "ReadFile X filePath = Inr content"
  shows "detectSignaturesByteAnalysis X filePath =
           Inr (0 < byteScanCount content, byteScanCount content) \<and>
         (Count content ''/Type/Sig'' = 2 \<and> Count content ''/FT/Sig'' = 1 \<and>
          \<not> fst (detectSignatureFields X ctx info) \<and> noValidationResults X filePath \<longrightarrow>
          SignatureCount (analyzeDigitalSignatures X filePath ctx info) = 3)"
proof (intro conjI impI)
  show "detectSignaturesByteAnalysis X filePath =
      Inr (0 < byteScanCount content, byteScanCount content)"
    using assms by (rule detectSignaturesByteAnalysis_eq)
next
  assume h: "Count content ''/Type/Sig'' = 2 \<and> Count content ''/FT/Sig'' = 1 \<and>
    \<not> fst (detectSignatureFields X ctx info) \<and> noValidationResults X filePath"
  obtain info1 where d: "detectSignatureFields X ctx info = (False, info1)"
    using h by (cases "detectSignatureFields X ctx info") auto
  have c: "byteScanCount content = 3"
    using h by (simp add: byteScanCount_def)
  from h have nv: "noValidationResults X filePath" by simp
  show "SignatureCount (analyzeDigitalSignatures X filePath ctx info) = 3"
    by (simp add: analyzeDigitalSignatures_def d byteScanStage_not_found [OF assms] c
        validationStage_none [OF nv])
qed

theorem byte_scan_count_witness:
  "detectSignaturesByteAnalysis
     (sampleExternal (Some ''<</Type/Sig>> <</Type/Sig>> <</FT/Sig>>'') (Inl (Error ''encrypted'')))
     ''doc.pdf'' = Inr (True, 3) \<and>
   SignatureCount (analyzeDigitalSignatures
     (sampleExternal (Some ''<</Type/Sig>> <</Type/Sig>> <</FT/Sig>>'') (Inl (Error ''encrypted'')))
     ''doc.pdf'' None newPDFInfo) = 3"
proof -
  let ?c = "''<</Type/Sig>> <</Type/Sig>> <</FT/Sig>>''"
  let ?X = "sampleExternal (Some ?c) (Inl (Error ''encrypted''))"
  have r: "ReadFile ?X ''doc.pdf'' = Inr ?c"
    by (simp add: sampleExternal_def)
  have c1: "Count ?c ''/Type/Sig'' = 2" by code_simp
  have c2: "Count ?c ''/FT/Sig'' = 1" by code_simp
  have n: "byteScanCount ?c = 3" by (simp add: byteScanCount_def c1 c2)
  have s: "\<not> fst (detectSignatureFields ?X None newPDFInfo)"
    by (simp add: detectSignatureFields_def)
  have v: "noValidationResults ?X ''doc.pdf''"
    by (simp add: noValidationResults_def sampleExternal_def)
  from byte_scan_count [OF r, of None newPDFInfo] c1 c2 s v n show ?thesis
    by simp
qed

subsection \<open>The reconciliation\<close>

lemma detectSignatureFields_eq:
  "detectSignatureFields X ctxo info =
     (case ctxo of
        None \<Rightarrow> (False, info)
      | Some ctx \<Rightarrow>
          (case RootDict ctx of
             None \<Rightarrow> (False, info)
           | Some root \<Rightarrow>
               if 0 < locatorEstimate X ctx False
               then (True, info\<lparr>HasDigitalSignatures := True,
                       SignatureCount := max (SignatureCount info) (locatorEstimate X ctx False)\<rparr>)
               else (False, info)))"
  by (simp add: detectSignatureFields_def processAcroForm_def Let_def max_def
      split: option.splits prod.splits)

lemma detectSignatureFields_found:
  assumes "fst (detectSignatureFields X ctxo info)"
  shows "HasDigitalSignatures (snd (detectSignatureFields X ctxo info))"
    and "0 < SignatureCount (snd (detectSignatureFields X ctxo info))"
    and "Signatures (snd (detectSignatureFields X ctxo info)) = Signatures info"
  using assms unfolding detectSignatureFields_eq
  by (auto split: option.splits if_splits)

lemma detectSignatureFields_not_found:
  "\<not> fst (detectSignatureFields X ctxo info) \<Longrightarrow> snd (detectSignatureFields X ctxo info) = info"
  unfolding detectSignatureFields_eq
  by (auto split: option.splits if_splits)

lemma detectSignaturesByteAnalysis_bool:
  "detectSignaturesByteAnalysis X filePath = Inr (h, c) \<Longrightarrow> h = (0 < c)"
  by (auto simp: detectSignaturesByteAnalysis_def Let_def split: sum.splits)

text \<open>What the byte scan contributes: its count if it reports signatures.\<close>

lemma byteScanStage_eq:
  "byteScanStage X filePath (found, info) =
     (if found then (True, info)
      else (case detectSignaturesByteAnalysis X filePath of
              Inl err \<Rightarrow> (False, info)
            | Inr r \<Rightarrow>
                if 0 < snd r
                then (True, info\<lparr>HasDigitalSignatures := True, SignatureCount := snd r\<rparr>)
                else (False, info)))"
proof (cases "detectSignaturesByteAnalysis X filePath")
  case (Inl e)
  then show ?thesis by (simp add: byteScanStage_def)
next
  case (Inr r)
  obtain h c where r: "r = (h, c)" by (cases r)
  with Inr have "h = (0 < c)" by (simp add: detectSignaturesByteAnalysis_bool)
  with Inr r show ?thesis by (simp add: byteScanStage_def)
qed

lemma stages_found:
  assumes "fst (byteScanStage X filePath (detectSignatureFields X ctxo info))"
  shows "HasDigitalSignatures (snd (byteScanStage X filePath (detectSignatureFields X ctxo info)))"
    and "0 < SignatureCount (snd (byteScanStage X filePath (detectSignatureFields X ctxo info)))"
    and "Signatures (snd (byteScanStage X filePath (detectSignatureFields X ctxo info))) =
         Signatures info"
proof -
  obtain found info1 where d: "detectSignatureFields X ctxo info = (found, info1)"
    by (cases "detectSignatureFields X ctxo info")
  let ?st = "byteScanStage X filePath (detectSignatureFields X ctxo info)"
  have "HasDigitalSignatures (snd ?st) \<and> 0 < SignatureCount (snd ?st) \<and>
      Signatures (snd ?st) = Signatures info"
  proof (cases found)
    case True
    with d detectSignatureFields_found [of X ctxo info] show ?thesis
      by (simp add: byteScanStage_eq)
  next
    case False
    with d detectSignatureFields_not_found [of X ctxo info] have "info1 = info" by simp
    with False d assms show ?thesis
      by (auto simp: byteScanStage_eq split: sum.splits if_splits)
  qed
  then show "HasDigitalSignatures (snd ?st)" and "0 < SignatureCount (snd ?st)"
    and "Signatures (snd ?st) = Signatures info"
    by simp_all
qed

lemma validationStage_results:
  "ValidateSignatures X filePath True = Inr results \<Longrightarrow> results \<noteq> [] \<Longrightarrow>
   validationStage X filePath (found, info) =
     info\<lparr>HasDigitalSignatures := True,
       SignatureCount := int (length results),
       Signatures := foldl (appendSignature X filePath) [] results\<rparr>"
  by (simp add: validationStage_def)

lemma validation_cases:
  "noValidationResults X filePath \<or>
   (\<exists>results. ValidateSignatures X filePath True = Inr results \<and> results \<noteq> [])"
  by (cases "ValidateSignatures X filePath True") (auto simp: noValidationResults_def)

text \<open>
  C1. Whatever the locator, the byte scan and the validation service do, the record
  returned by \<^verbatim>\<open>analyzeDigitalSignatures\<close> has \<^verbatim>\<open>HasDigitalSignatures\<close> equal to
  \<^verbatim>\<open>SignatureCount > 0\<close>.
\<close>

theorem has_signatures_iff_count_positive:
  "HasDigitalSignatures (analyzeDigitalSignatures X filePath ctx info) =
     (0 < SignatureCount (analyzeDigitalSignatures X filePath ctx info))"
proof -
  obtain found info1 where
    st: "byteScanStage X filePath (detectSignatureFields X ctx info) = (found, info1)"
    by (cases "byteScanStage X filePath (detectSignatureFields X ctx info)")
  have pos: "found \<Longrightarrow> 0 < SignatureCount info1"
    using stages_found(2) [of X filePath ctx info] st by simp
  from validation_cases [of X filePath] show ?thesis
  proof
    assume "noValidationResults X filePath"
    then show ?thesis
      using pos by (simp add: analyzeDigitalSignatures_def st validationStage_none)
  next
    assume "\<exists>results. ValidateSignatures X filePath True = Inr results \<and> results \<noteq> []"
    then obtain results where
      "ValidateSignatures X filePath True = Inr results" "results \<noteq> []" by blast
    then show ?thesis
      by (simp add: analyzeDigitalSignatures_def st validationStage_results)
  qed
qed

theorem has_signatures_iff_count_positive_witness:
  "HasDigitalSignatures (analyzeDigitalSignatures (sampleExternal None (Inl (Error ''encrypted'')))
      ''doc.pdf'' (Some sampleContext) newPDFInfo) \<and>
   SignatureCount (analyzeDigitalSignatures (sampleExternal None (Inl (Error ''encrypted'')))
      ''doc.pdf'' (Some sampleContext) newPDFInfo) = 2 \<and>
   \<not> HasDigitalSignatures (analyzeDigitalSignatures (sampleExternal None (Inl (Error ''encrypted'')))
      ''doc.pdf'' None newPDFInfo)"
proof -
  let ?X = "sampleExternal None (Inl (Error ''encrypted''))"
  have c: "SignatureCount (analyzeDigitalSignatures ?X ''doc.pdf'' (Some sampleContext) newPDFInfo) = 2"
    by code_simp
  have z: "SignatureCount (analyzeDigitalSignatures ?X ''doc.pdf'' None newPDFInfo) = 0"
    by code_simp
  from has_signatures_iff_count_positive [of ?X "''doc.pdf''" "Some sampleContext" newPDFInfo]
    has_signatures_iff_count_positive [of ?X "''doc.pdf''" None newPDFInfo] c z
  show ?thesis by simp
qed

lemma foldl_appendSignature:
  "foldl (appendSignature X filePath) acc results =
     acc @ map (\<lambda>result. analyzeTimestamp X filePath (newSignatureInfo X result)) results"
  by (induction results arbitrary: acc) (simp_all add: appendSignature_def)

lemma analyze_results:
  assumes "ValidateSignatures X filePath True = Inr results" and "results \<noteq> []"
  shows "analyzeDigitalSignatures X filePath ctx info =
     (snd (byteScanStage X filePath (detectSignatureFields X ctx info)))
       \<lparr>HasDigitalSignatures := True,
        SignatureCount := int (length results),
        Signatures := map (\<lambda>result. analyzeTimestamp X filePath (newSignatureInfo X result)) results\<rparr>"
proof -
  obtain found info1 where
    st: "byteScanStage X filePath (detectSignatureFields X ctx info) = (found, info1)"
    by (cases "byteScanStage X filePath (detectSignatureFields X ctx info)")
  show ?thesis
    by (simp add: analyzeDigitalSignatures_def st validationStage_results [OF assms]
        foldl_appendSignature)
qed

text \<open>
  C2. When the validation service succeeds with \<open>N \<ge> 1\<close> results, the final record
  has \<^verbatim>\<open>HasDigitalSignatures\<close> set, \<^verbatim>\<open>SignatureCount = N\<close> and \<open>N\<close> detail records, one
  built from each result in order, whatever the earlier stages found.
\<close>

theorem validation_is_authoritative:
  assumes "ValidateSignatures X filePath True = Inr results" and "1 \<le> length results"
  shows "HasDigitalSignatures (analyzeDigitalSignatures X filePath ctx info) \<and>
         SignatureCount (analyzeDigitalSignatures X filePath ctx info) = int (length results) \<and>
         length (Signatures (analyzeDigitalSignatures X filePath ctx info)) = length results \<and>
         Signatures (analyzeDigitalSignatures X filePath ctx info) =
           map (\<lambda>result. analyzeTimestamp X filePath (newSignatureInfo X result)) results"
proof -
  from assms(2) have "results \<noteq> []" by auto
  then show ?thesis by (simp add: analyze_results [OF assms(1)])
qed

theorem validation_is_authoritative_witness:
  "HasDigitalSignatures (analyzeDigitalSignatures
      (sampleExternal (Some ''%PDF-1.4'') (Inr [sampleResult True, sampleResult False]))
      ''doc.pdf'' (Some sampleContext) newPDFInfo) \<and>
   SignatureCount (analyzeDigitalSignatures
      (sampleExternal (Some ''%PDF-1.4'') (Inr [sampleResult True, sampleResult False]))
      ''doc.pdf'' (Some sampleContext) newPDFInfo) = 2 \<and>
   length (Signatures (analyzeDigitalSignatures
      (sampleExternal (Some ''%PDF-1.4'') (Inr [sampleResult True, sampleResult False]))
      ''doc.pdf'' (Some sampleContext) newPDFInfo)) = 2"
proof -
  let ?X = "sampleExternal (Some ''%PDF-1.4'') (Inr [sampleResult True, sampleResult False])"
  have v: "ValidateSignatures ?X ''doc.pdf'' True = Inr [sampleResult True, sampleResult False]"
    by (simp add: sampleExternal_def)
  have n: "1 \<le> length [sampleResult True, sampleResult False]" by simp
  from validation_is_authoritative [OF v n, of "Some sampleContext" newPDFInfo]
  show ?thesis by simp
qed

subsection \<open>The fallback when validation gives nothing\<close>

text \<open>
  C3. When the validation call fails or returns no result, in a pass that starts without
  detail records: if the locator found signatures, or it did not and the byte scan did,
  the final record keeps \<^verbatim>\<open>HasDigitalSignatures = true\<close>, a count of at least 1 that is
  the one the earlier stage recorded, and an empty detail list; if neither found
  anything, the record says no signatures and count 0.
\<close>

theorem coarse_verdict_kept:
  assumes "noValidationResults X filePath" and "Signatures info = []"
  shows
    "(fst (detectSignatureFields X ctx info) \<longrightarrow>
        HasDigitalSignatures (analyzeDigitalSignatures X filePath ctx info) \<and>
        1 \<le> SignatureCount (analyzeDigitalSignatures X filePath ctx info) \<and>
        SignatureCount (analyzeDigitalSignatures X filePath ctx info) =
          SignatureCount (snd (detectSignatureFields X ctx info)) \<and>
        Signatures (analyzeDigitalSignatures X filePath ctx info) = []) \<and>
     (\<not> fst (detectSignatureFields X ctx info) \<and>
      detectSignaturesByteAnalysis X filePath = Inr (True, rawCount) \<longrightarrow>
        HasDigitalSignatures (analyzeDigitalSignatures X filePath ctx info) \<and>
        1 \<le> SignatureCount (analyzeDigitalSignatures X filePath ctx info) \<and>
        SignatureCount (analyzeDigitalSignatures X filePath ctx info) = rawCount \<and>
        Signatures (analyzeDigitalSignatures X filePath ctx info) = []) \<and>
     (\<not> fst (detectSignatureFields X ctx info) \<and>
      (\<forall>c. detectSignaturesByteAnalysis X filePath \<noteq> Inr (True, c)) \<longrightarrow>
        \<not> HasDigitalSignatures (analyzeDigitalSignatures X filePath ctx info) \<and>
        SignatureCount (analyzeDigitalSignatures X filePath ctx info) = 0)"
proof (intro conjI impI)
  assume sf: "fst (detectSignatureFields X ctx info)"
  then obtain info1 where d: "detectSignatureFields X ctx info = (True, info1)"
    by (cases "detectSignatureFields X ctx info") auto
  from detectSignatureFields_found [OF sf] d assms(2)
  have "0 < SignatureCount info1" "Signatures info1 = []" by simp_all
  then show "HasDigitalSignatures (analyzeDigitalSignatures X filePath ctx info)"
    and "1 \<le> SignatureCount (analyzeDigitalSignatures X filePath ctx info)"
    and "SignatureCount (analyzeDigitalSignatures X filePath ctx info) =
          SignatureCount (snd (detectSignatureFields X ctx info))"
    and "Signatures (analyzeDigitalSignatures X filePath ctx info) = []"
    by (simp_all add: analyzeDigitalSignatures_def d byteScanStage_eq
        validationStage_none [OF assms(1)])
next
  assume h: "\<not> fst (detectSignatureFields X ctx info) \<and>
      detectSignaturesByteAnalysis X filePath = Inr (True, rawCount)"
  then have d: "detectSignatureFields X ctx info = (False, info)"
    using detectSignatureFields_not_found [of X ctx info]
    by (cases "detectSignatureFields X ctx info") auto
  from h have b: "detectSignaturesByteAnalysis X filePath = Inr (True, rawCount)" by simp
  from detectSignaturesByteAnalysis_bool [OF b] have pos: "0 < rawCount" by simp
  then show "HasDigitalSignatures (analyzeDigitalSignatures X filePath ctx info)"
    and "1 \<le> SignatureCount (analyzeDigitalSignatures X filePath ctx info)"
    and "SignatureCount (analyzeDigitalSignatures X filePath ctx info) = rawCount"
    and "Signatures (analyzeDigitalSignatures X filePath ctx info) = []"
    using assms(2)
    by (simp_all add: analyzeDigitalSignatures_def d byteScanStage_eq b
        validationStage_none [OF assms(1)])
next
  assume h: "\<not> fst (detectSignatureFields X ctx info) \<and>
      (\<forall>c. detectSignaturesByteAnalysis X filePath \<noteq> Inr (True, c))"
  then have d: "detectSignatureFields X ctx info = (False, info)"
    using detectSignatureFields_not_found [of X ctx info]
    by (cases "detectSignatureFields X ctx info") auto
  have st: "byteScanStage X filePath (False, info) = (False, info)"
  proof (cases "detectSignaturesByteAnalysis X filePath")
    case (Inl e)
    then show ?thesis by (simp add: byteScanStage_eq)
  next
    case (Inr r)
    obtain hr c where r: "r = (hr, c)" by (cases r)
    with Inr detectSignaturesByteAnalysis_bool [of X filePath hr c] have "hr = (0 < c)" by simp
    moreover from h Inr r have "\<not> hr" by auto
    ultimately show ?thesis using Inr r by (simp add: byteScanStage_eq)
  qed
  show "\<not> HasDigitalSignatures (analyzeDigitalSignatures X filePath ctx info)"
    and "SignatureCount (analyzeDigitalSignatures X filePath ctx info) = 0"
    by (simp_all add: analyzeDigitalSignatures_def d st validationStage_none [OF assms(1)])
qed

theorem coarse_verdict_kept_witness:
  "(HasDigitalSignatures (analyzeDigitalSignatures (sampleExternal None (Inl (Error ''encrypted'')))
        ''doc.pdf'' (Some sampleContext) newPDFInfo) \<and>
    SignatureCount (analyzeDigitalSignatures (sampleExternal None (Inl (Error ''encrypted'')))
        ''doc.pdf'' (Some sampleContext) newPDFInfo) = 2 \<and>
    Signatures (analyzeDigitalSignatures (sampleExternal None (Inl (Error ''encrypted'')))
        ''doc.pdf'' (Some sampleContext) newPDFInfo) = []) \<and>
   (HasDigitalSignatures (analyzeDigitalSignatures
        (sampleExternal (Some ''<</Type/Sig>> <</Type/Sig>> <</FT/Sig>>'') (Inr []))
        ''doc.pdf'' None newPDFInfo) \<and>
    SignatureCount (analyzeDigitalSignatures
        (sampleExternal (Some ''<</Type/Sig>> <</Type/Sig>> <</FT/Sig>>'') (Inr []))
        ''doc.pdf'' None newPDFInfo) = 3 \<and>
    Signatures (analyzeDigitalSignatures
        (sampleExternal (Some ''<</Type/Sig>> <</Type/Sig>> <</FT/Sig>>'') (Inr []))
        ''doc.pdf'' None newPDFInfo) = []) \<and>
   (\<not> HasDigitalSignatures (analyzeDigitalSignatures
        (sampleExternal (Some ''%PDF-1.4'') (Inl (Error ''encrypted'')))
        ''doc.pdf'' None newPDFInfo) \<and>
    SignatureCount (analyzeDigitalSignatures
        (sampleExternal (Some ''%PDF-1.4'') (Inl (Error ''encrypted'')))
        ''doc.pdf'' None newPDFInfo) = 0)"
proof -
  let ?X1 = "sampleExternal None (Inl (Error ''encrypted''))"
  let ?X2 = "sampleExternal (Some ''<</Type/Sig>> <</Type/Sig>> <</FT/Sig>>'') (Inr [])"
  let ?X3 = "sampleExternal (Some ''%PDF-1.4'') (Inl (Error ''encrypted''))"
  have e: "Signatures newPDFInfo = []" by (simp add: newPDFInfo_def)
  have v1: "noValidationResults ?X1 ''doc.pdf''"
    and v2: "noValidationResults ?X2 ''doc.pdf''"
    and v3: "noValidationResults ?X3 ''doc.pdf''"
    by (simp_all add: noValidationResults_def sampleExternal_def)
  have d1: "detectSignatureFields ?X1 (Some sampleContext) newPDFInfo =
      (True, newPDFInfo\<lparr>HasDigitalSignatures := True, SignatureCount := 2\<rparr>)"
    by code_simp
  have d2: "\<not> fst (detectSignatureFields ?X2 None newPDFInfo)"
    and d3: "\<not> fst (detectSignatureFields ?X3 None newPDFInfo)"
    by (simp_all add: detectSignatureFields_def)
  have b2: "detectSignaturesByteAnalysis ?X2 ''doc.pdf'' = Inr (True, 3)"
    by code_simp
  have b3: "detectSignaturesByteAnalysis ?X3 ''doc.pdf'' = Inr (False, 0)"
    by code_simp
  from coarse_verdict_kept [OF v1 e, of "Some sampleContext"] d1
  have one: "HasDigitalSignatures (analyzeDigitalSignatures ?X1 ''doc.pdf'' (Some sampleContext) newPDFInfo) \<and>
      SignatureCount (analyzeDigitalSignatures ?X1 ''doc.pdf'' (Some sampleContext) newPDFInfo) = 2 \<and>
      Signatures (analyzeDigitalSignatures ?X1 ''doc.pdf'' (Some sampleContext) newPDFInfo) = []"
    by simp
  from coarse_verdict_kept [OF v2 e, of None 3] d2 b2
  have two: "HasDigitalSignatures (analyzeDigitalSignatures ?X2 ''doc.pdf'' None newPDFInfo) \<and>
      SignatureCount (analyzeDigitalSignatures ?X2 ''doc.pdf'' None newPDFInfo) = 3 \<and>
      Signatures (analyzeDigitalSignatures ?X2 ''doc.pdf'' None newPDFInfo) = []"
    by simp
  from coarse_verdict_kept [OF v3 e, of None] d3 b3
  have three: "\<not> HasDigitalSignatures (analyzeDigitalSignatures ?X3 ''doc.pdf'' None newPDFInfo) \<and>
      SignatureCount (analyzeDigitalSignatures ?X3 ''doc.pdf'' None newPDFInfo) = 0"
    by simp
  from one two three show ?thesis by blast
qed

subsection \<open>The locator, the recorded count and the shared timestamp\<close>

text \<open>
  C5. The AcroForm method of the locator as the code has it: \<^verbatim>\<open>processAcroForm\<close> returns
  0 for every AcroForm object, whatever its \<^verbatim>\<open>Fields\<close> array holds, so the locator's
  verdict is the one of the table scan and the indicator fallback alone. The claim
  expects the number of signature fields.
\<close>

theorem acroForm_walk_counts_nothing:
  "processAcroForm X ctx acroFormObj info = 0 \<and>
   fst (detectSignatureFields X (Some ctx) info) =
     (RootDict ctx \<noteq> None \<and> 0 < locatorEstimate X ctx False)"
  by (simp add: processAcroForm_def detectSignatureFields_eq split: option.splits)

text \<open>
  C8, as stated, fails: the recorded count can go down within one pass. A file with one
  \<^verbatim>\<open>/Type/Sig\<close> and one \<^verbatim>\<open>/FT/Sig\<close> gets the count 2 from the byte scan, and the single
  validation result then sets it to 1; likewise after the locator has recorded 2.
\<close>

theorem count_decreases_counterexample:
  "countTrace (sampleExternal (Some ''<</Type/Sig>> <</FT/Sig>>'') (Inr [sampleResult False]))
     ''doc.pdf'' None newPDFInfo = [0, 0, 2, 1] \<and>
   countTrace (sampleExternal None (Inr [sampleResult False]))
     ''doc.pdf'' (Some sampleContext) newPDFInfo = [0, 2, 2, 1] \<and>
   SignatureCount (analyzeDigitalSignatures
       (sampleExternal (Some ''<</Type/Sig>> <</FT/Sig>>'') (Inr [sampleResult False]))
       ''doc.pdf'' None newPDFInfo)
     < SignatureCount (snd (byteScanStage
         (sampleExternal (Some ''<</Type/Sig>> <</FT/Sig>>'') (Inr [sampleResult False]))
         ''doc.pdf''
         (detectSignatureFields
            (sampleExternal (Some ''<</Type/Sig>> <</FT/Sig>>'') (Inr [sampleResult False]))
            None newPDFInfo)))"
  by code_simp

text \<open>
  C8, amended. The locator never lowers the recorded count: after it ran, the count is the
  locator's estimate if signatures were found and the estimate is strictly greater than
  the count before, and the count before otherwise.
\<close>

theorem locator_count_monotone:
  "SignatureCount info \<le> SignatureCount (snd (detectSignatureFields X ctxo info)) \<and>
   SignatureCount (snd (detectSignatureFields X (Some ctx) info)) =
     (if fst (detectSignatureFields X (Some ctx) info) \<and>
         SignatureCount info < locatorEstimate X ctx False
      then locatorEstimate X ctx False
      else SignatureCount info)"
  by (simp add: detectSignatureFields_eq max_def split: option.splits)

theorem locator_count_monotone_witness:
  "SignatureCount (snd (detectSignatureFields (sampleExternal None (Inl (Error ''encrypted'')))
      (Some sampleContext) newPDFInfo)) = 2 \<and>
   SignatureCount (snd (detectSignatureFields (sampleExternal None (Inl (Error ''encrypted'')))
      (Some sampleContext) (newPDFInfo\<lparr>SignatureCount := 5\<rparr>))) = 5"
proof -
  let ?X = "sampleExternal None (Inl (Error ''encrypted''))"
  have est: "locatorEstimate ?X sampleContext False = 2" by code_simp
  have f: "fst (detectSignatureFields ?X (Some sampleContext) newPDFInfo)" by code_simp
  have n: "SignatureCount newPDFInfo = 0" by (simp add: newPDFInfo_def)
  from locator_count_monotone [of newPDFInfo ?X "Some sampleContext" sampleContext]
    locator_count_monotone [of "newPDFInfo\<lparr>SignatureCount := 5\<rparr>" ?X "Some sampleContext" sampleContext]
    est f n
  show ?thesis by simp
qed

lemma analyzeTimestamp_fields:
  "ReadFile Y path = ReadFile X filePath \<Longrightarrow>
   timestampFields (analyzeTimestamp Y path s') = timestampFields (analyzeTimestamp X filePath s)"
  by (simp add: analyzeTimestamp_def detectTimestampByteAnalysis_def timestampFields_def Let_def)

lemma analyzeTimestamp_Type: "Type (analyzeTimestamp X filePath s) = Type s"
  by (simp add: analyzeTimestamp_def Let_def)

text \<open>
  C10. When validation yields two or more results, all detail records of the pass carry
  the same five timestamp fields, and these are the fields the timestamp analysis gives
  for any record over any file read with the same outcome: they depend on the bytes
  only.
\<close>

theorem timestamp_fields_shared:
  assumes "ValidateSignatures X filePath True = Inr results" and "2 \<le> length results"
  shows "(\<forall>s1\<in>set (Signatures (analyzeDigitalSignatures X filePath ctx info)).
          \<forall>s2\<in>set (Signatures (analyzeDigitalSignatures X filePath ctx info)).
            timestampFields s1 = timestampFields s2) \<and>
         (ReadFile Y path = ReadFile X filePath \<longrightarrow>
          (\<forall>s\<in>set (Signatures (analyzeDigitalSignatures X filePath ctx info)).
             timestampFields s = timestampFields (analyzeTimestamp Y path sigInfo)))"
proof -
  from assms(2) have ne: "results \<noteq> []" by auto
  have sigs: "Signatures (analyzeDigitalSignatures X filePath ctx info) =
      map (\<lambda>result. analyzeTimestamp X filePath (newSignatureInfo X result)) results"
    by (simp add: analyze_results [OF assms(1) ne])
  have same: "timestampFields s = timestampFields (analyzeTimestamp Y' path' sigInfo')"
    if "s \<in> set (Signatures (analyzeDigitalSignatures X filePath ctx info))"
      and "ReadFile Y' path' = ReadFile X filePath"
    for s and Y' :: "('t, 'y) external_scheme" and path' sigInfo'
  proof -
    from that(1) sigs obtain result where
      s: "s = analyzeTimestamp X filePath (newSignatureInfo X result)" by auto
    show ?thesis
      unfolding s
      by (rule analyzeTimestamp_fields [OF that(2), symmetric])
  qed
  have "timestampFields s1 = timestampFields s2"
    if "s1 \<in> set (Signatures (analyzeDigitalSignatures X filePath ctx info))"
      and "s2 \<in> set (Signatures (analyzeDigitalSignatures X filePath ctx info))" for s1 s2
  proof -
    have "timestampFields s1 = timestampFields (analyzeTimestamp X filePath s1)"
      by (rule same [OF that(1) refl])
    moreover have "timestampFields s2 = timestampFields (analyzeTimestamp X filePath s1)"
      by (rule same [OF that(2) refl])
    ultimately show ?thesis by simp
  qed
  moreover have "\<forall>s\<in>set (Signatures (analyzeDigitalSignatures X filePath ctx info)).
        timestampFields s = timestampFields (analyzeTimestamp Y path sigInfo)"
    if "ReadFile Y path = ReadFile X filePath"
    using same [OF _ that] by blast
  ultimately show ?thesis by blast
qed

theorem timestamp_fields_shared_witness:
  "length (Signatures (analyzeDigitalSignatures
      (sampleExternal (Some ''Serpro D:20250606155827'') (Inr [sampleResult True, sampleResult False]))
      ''doc.pdf'' None newPDFInfo)) = 2 \<and>
   timestampFields (Signatures (analyzeDigitalSignatures
      (sampleExternal (Some ''Serpro D:20250606155827'') (Inr [sampleResult True, sampleResult False]))
      ''doc.pdf'' None newPDFInfo) ! 0) =
   timestampFields (Signatures (analyzeDigitalSignatures
      (sampleExternal (Some ''Serpro D:20250606155827'') (Inr [sampleResult True, sampleResult False]))
      ''doc.pdf'' None newPDFInfo) ! 1) \<and>
   Type (Signatures (analyzeDigitalSignatures
      (sampleExternal (Some ''Serpro D:20250606155827'') (Inr [sampleResult True, sampleResult False]))
      ''doc.pdf'' None newPDFInfo) ! 0) \<noteq>
   Type (Signatures (analyzeDigitalSignatures
      (sampleExternal (Some ''Serpro D:20250606155827'') (Inr [sampleResult True, sampleResult False]))
      ''doc.pdf'' None newPDFInfo) ! 1)"
proof -
  let ?X = "sampleExternal (Some ''Serpro D:20250606155827'')
      (Inr [sampleResult True, sampleResult False])"
  let ?R = "analyzeDigitalSignatures ?X ''doc.pdf'' None newPDFInfo"
  have v: "ValidateSignatures ?X ''doc.pdf'' True = Inr [sampleResult True, sampleResult False]"
    by (simp add: sampleExternal_def)
  have n: "2 \<le> length [sampleResult True, sampleResult False]" by simp
  have sigs: "Signatures ?R =
      [analyzeTimestamp ?X ''doc.pdf'' (newSignatureInfo ?X (sampleResult True)),
       analyzeTimestamp ?X ''doc.pdf'' (newSignatureInfo ?X (sampleResult False))]"
    by (simp add: analyze_results [OF v])
  let ?a = "analyzeTimestamp ?X ''doc.pdf'' (newSignatureInfo ?X (sampleResult True))"
  let ?b = "analyzeTimestamp ?X ''doc.pdf'' (newSignatureInfo ?X (sampleResult False))"
  have ty: "Type ?a \<noteq> Type ?b"
    by (simp add: analyzeTimestamp_Type newSignatureInfo_def sampleResult_def)
  have a: "?a \<in> set (Signatures ?R)" and b: "?b \<in> set (Signatures ?R)"
    unfolding sigs by simp_all
  have all: "\<forall>s1\<in>set (Signatures ?R). \<forall>s2\<in>set (Signatures ?R).
      timestampFields s1 = timestampFields s2"
    by (rule conjunct1 [OF timestamp_fields_shared [OF v n, of None newPDFInfo ?X "''doc.pdf''"]])
  have "timestampFields ?a = timestampFields ?b"
    by (rule bspec [OF bspec [OF all a] b])
  moreover have n0: "Signatures ?R ! 0 = ?a" and n1: "Signatures ?R ! 1 = ?b"
    unfolding sigs by (simp_all only: nth_Cons_0 nth_Cons_Suc One_nat_def)
  moreover have "length (Signatures ?R) = 2" unfolding sigs by simp
  moreover note ty
  ultimately show ?thesis by (simp only: simp_thms)
qed

subsection \<open>The timestamp analysis\<close>

lemma timestampTypeOf_nonempty: "timestampTypeOf pattern \<noteq> []"
  by (simp add: timestampTypeOf_def)

lemma scanTimestampPatterns_find:
  "scanTimestampPatterns content patterns (False, m) =
     (case find (Contains content) patterns of
        None \<Rightarrow> (False, m)
      | Some pattern \<Rightarrow> (True, m(''type'' \<mapsto> timestampTypeOf pattern)))"
  by (induction patterns) simp_all

lemma scanTimePatterns_other:
  "k \<noteq> ''time'' \<Longrightarrow> scanTimePatterns content patterns m k = m k"
  by (induction patterns) simp_all

lemma scanAuthorityPatterns_other:
  "k \<noteq> ''authority'' \<Longrightarrow> scanAuthorityPatterns content patterns m k = m k"
  by (induction patterns) simp_all

lemma setDefaults_type: "setDefaults m ''type'' = m ''type''"
  by (simp add: setDefaults_def Let_def)

lemma detectTimestampByteAnalysis_eq:
  assumes "ReadFile X filePath = Inr content"
  shows "detectTimestampByteAnalysis X filePath =
     (case find (Contains content) timestampPatterns of
        None \<Rightarrow> (False, Map.empty)
      | Some pattern \<Rightarrow>
          (True, setDefaults (scanAuthorityPatterns content authorityPatterns
             (scanTimePatterns content timePatterns [''type'' \<mapsto> timestampTypeOf pattern]))))"
  by (simp add: detectTimestampByteAnalysis_def assms scanTimestampPatterns_find Let_def
      split: option.splits)

lemma detectTimestampByteAnalysis_type:
  assumes "ReadFile X filePath = Inr content"
    and "find (Contains content) timestampPatterns = Some pattern"
  shows "fst (detectTimestampByteAnalysis X filePath)"
    and "mapGet (snd (detectTimestampByteAnalysis X filePath)) ''type'' = timestampTypeOf pattern"
  by (simp_all add: detectTimestampByteAnalysis_eq [OF assms(1)] assms(2) mapGet_def
      setDefaults_type scanAuthorityPatterns_other scanTimePatterns_other)

lemma detectTimestampByteAnalysis_present:
  assumes "fst (detectTimestampByteAnalysis X filePath)"
  shows "mapGet (snd (detectTimestampByteAnalysis X filePath)) ''type'' \<noteq> []"
proof (cases "ReadFile X filePath")
  case (Inl e)
  with assms show ?thesis by (simp add: detectTimestampByteAnalysis_def)
next
  case (Inr content)
  show ?thesis
  proof (cases "find (Contains content) timestampPatterns")
    case None
    with assms Inr show ?thesis by (simp add: detectTimestampByteAnalysis_eq)
  next
    case (Some pattern)
    from detectTimestampByteAnalysis_type(2) [OF Inr Some] show ?thesis
      by (simp add: timestampTypeOf_nonempty)
  qed
qed

text \<open>
  C9. After \<^verbatim>\<open>analyzeTimestamp\<close> ran on any record: if \<^verbatim>\<open>HasTimestamp\<close> is false, the type,
  time and authority are empty and the status is \<^verbatim>\<open>None\<close>; if it is true, the type is
  not empty and the status is \<^verbatim>\<open>Present\<close>. A failed read of the file leaves the record
  in the absent state.
\<close>

theorem timestamp_record_invariant:
  "(\<not> HasTimestamp (analyzeTimestamp X filePath sigInfo) \<longrightarrow>
      TimestampType (analyzeTimestamp X filePath sigInfo) = [] \<and>
      TimestampTime (analyzeTimestamp X filePath sigInfo) = [] \<and>
      TimestampAuthority (analyzeTimestamp X filePath sigInfo) = [] \<and>
      TimestampStatus (analyzeTimestamp X filePath sigInfo) = ''None'') \<and>
   (HasTimestamp (analyzeTimestamp X filePath sigInfo) \<longrightarrow>
      TimestampType (analyzeTimestamp X filePath sigInfo) \<noteq> [] \<and>
      TimestampStatus (analyzeTimestamp X filePath sigInfo) = ''Present'') \<and>
   (ReadFile X filePath = Inl err \<longrightarrow> \<not> HasTimestamp (analyzeTimestamp X filePath sigInfo))"
proof (cases "fst (detectTimestampByteAnalysis X filePath)")
  case True
  then have "ReadFile X filePath \<noteq> Inl err"
    by (auto simp: detectTimestampByteAnalysis_def)
  with True detectTimestampByteAnalysis_present [OF True] show ?thesis
    by (simp add: analyzeTimestamp_def Let_def)
next
  case False
  then show ?thesis
    by (simp add: analyzeTimestamp_def Let_def)
qed

theorem timestamp_record_invariant_witness:
  "\<not> HasTimestamp (analyzeTimestamp (sampleExternal None (Inl (Error ''encrypted'')))
        ''doc.pdf'' (newSignatureInfo (sampleExternal None (Inl (Error ''encrypted''))) (sampleResult True))) \<and>
   TimestampStatus (analyzeTimestamp (sampleExternal None (Inl (Error ''encrypted'')))
        ''doc.pdf'' (newSignatureInfo (sampleExternal None (Inl (Error ''encrypted''))) (sampleResult True))) = ''None'' \<and>
   HasTimestamp (analyzeTimestamp (sampleExternal (Some ''/ByteRange [0 10 20 30]'') (Inl (Error ''encrypted'')))
        ''doc.pdf'' (newSignatureInfo (sampleExternal None (Inl (Error ''encrypted''))) (sampleResult True))) \<and>
   TimestampType (analyzeTimestamp (sampleExternal (Some ''/ByteRange [0 10 20 30]'') (Inl (Error ''encrypted'')))
        ''doc.pdf'' (newSignatureInfo (sampleExternal None (Inl (Error ''encrypted''))) (sampleResult True))) \<noteq> []"
proof -
  let ?X1 = "sampleExternal None (Inl (Error ''encrypted''))"
  let ?X2 = "sampleExternal (Some ''/ByteRange [0 10 20 30]'') (Inl (Error ''encrypted''))"
  let ?s = "newSignatureInfo ?X1 (sampleResult True)"
  have r: "ReadFile ?X1 ''doc.pdf'' = Inl (Error ''permission denied'')"
    by (simp add: sampleExternal_def)
  have h: "HasTimestamp (analyzeTimestamp ?X2 ''doc.pdf'' ?s)"
    by code_simp
  from timestamp_record_invariant [of ?X1 "''doc.pdf''" ?s "Error ''permission denied''"] r
  have "\<not> HasTimestamp (analyzeTimestamp ?X1 ''doc.pdf'' ?s) \<and>
      TimestampStatus (analyzeTimestamp ?X1 ''doc.pdf'' ?s) = ''None''"
    by blast
  moreover from timestamp_record_invariant [of ?X2 "''doc.pdf''" ?s] h
  have "TimestampType (analyzeTimestamp ?X2 ''doc.pdf'' ?s) \<noteq> []"
    by blast
  ultimately show ?thesis using h by blast
qed

subsection \<open>The timestamp scan\<close>

lemma not_Contains_Index: "\<not> Contains s substr \<Longrightarrow> Index s substr = -1"
  using Index_found_bound [of s substr] by (auto simp: Contains_def)

lemma scanTimePatterns_none:
  "\<forall>p\<in>set patterns. \<not> Contains content p \<Longrightarrow> scanTimePatterns content patterns m = m"
  by (induction patterns) (simp_all add: not_Contains_Index)

lemma scanAuthorityPatterns_none:
  "\<forall>p\<in>set patterns. \<not> Contains content p \<Longrightarrow> scanAuthorityPatterns content patterns m = m"
  by (induction patterns) (simp_all add: not_Contains_Index)

lemma find_last:
  "\<forall>p\<in>set xs. \<not> P p \<Longrightarrow> P y \<Longrightarrow> find P (xs @ [y]) = Some y"
  by (induction xs) simp_all

lemma timestampPatterns_last:
  "timestampPatterns = butlast timestampPatterns @ [''/ByteRange'']"
  by (simp add: timestampPatterns_def)

lemma timestampTypeOf_ByteRange: "timestampTypeOf ''/ByteRange'' = ''Embedded''"
  by code_simp

lemma timestampTypeOf_table:
  "map timestampTypeOf timestampPatterns =
     [''RFC3161'', ''PKCS#7'', ''Standard'', ''Standard'', ''Standard'', ''Standard'', ''TSA'',
      ''Standard'', ''TSA'', ''Serpro TSA'', ''Serpro TSA'', ''ICP-Brasil'', ''Standard'',
      ''Standard'', ''Standard'', ''Embedded'']"
  by code_simp

lemma byteRange_only:
  assumes "ReadFile X filePath = Inr content"
    and "Contains content ''/ByteRange''"
    and "\<forall>p\<in>set (butlast timestampPatterns). \<not> Contains content p"
    and "\<forall>p\<in>set timePatterns. \<not> Contains content p"
    and "\<forall>p\<in>set authorityPatterns. \<not> Contains content p"
  shows "detectTimestampByteAnalysis X filePath =
           (True, [''type'' \<mapsto> ''Embedded'', ''time'' \<mapsto> ''Unknown'', ''authority'' \<mapsto> ''Unknown''])"
proof -
  have "find (Contains content) (butlast timestampPatterns @ [''/ByteRange'']) = Some ''/ByteRange''"
    using assms(3) assms(2) by (rule find_last)
  then have f: "find (Contains content) timestampPatterns = Some ''/ByteRange''"
    using timestampPatterns_last by simp
  show ?thesis
    by (simp add: detectTimestampByteAnalysis_eq [OF assms(1)] f timestampTypeOf_ByteRange
        scanTimePatterns_none [OF assms(4)] scanAuthorityPatterns_none [OF assms(5)]
        setDefaults_def mapGet_def Let_def)
qed

text \<open>
  C6, amended. For a readable file, the first pattern of the priority list that occurs
  in the bytes decides presence and the type label, which is the label of the substring
  tests on that pattern (listed for the sixteen patterns, in order); no pattern means no
  timestamp. A file in which \<^verbatim>\<open>/ByteRange\<close> occurs, none of the fifteen patterns before it
  occurs, and no time or authority pattern occurs, gives present, type \<^verbatim>\<open>Embedded\<close>,
  time \<^verbatim>\<open>Unknown\<close> and authority \<^verbatim>\<open>Unknown\<close>.
\<close>

theorem timestamp_first_match:
  assumes "ReadFile X filePath = Inr content"
  shows
    "(find (Contains content) timestampPatterns = None \<longrightarrow>
        \<not> fst (detectTimestampByteAnalysis X filePath)) \<and>
     (\<forall>pattern. find (Contains content) timestampPatterns = Some pattern \<longrightarrow>
        fst (detectTimestampByteAnalysis X filePath) \<and>
        mapGet (snd (detectTimestampByteAnalysis X filePath)) ''type'' = timestampTypeOf pattern) \<and>
     map timestampTypeOf timestampPatterns =
       [''RFC3161'', ''PKCS#7'', ''Standard'', ''Standard'', ''Standard'', ''Standard'', ''TSA'',
        ''Standard'', ''TSA'', ''Serpro TSA'', ''Serpro TSA'', ''ICP-Brasil'', ''Standard'',
        ''Standard'', ''Standard'', ''Embedded''] \<and>
     (Contains content ''/ByteRange'' \<and>
      (\<forall>p\<in>set (butlast timestampPatterns). \<not> Contains content p) \<and>
      (\<forall>p\<in>set timePatterns. \<not> Contains content p) \<and>
      (\<forall>p\<in>set authorityPatterns. \<not> Contains content p) \<longrightarrow>
        fst (detectTimestampByteAnalysis X filePath) \<and>
        mapGet (snd (detectTimestampByteAnalysis X filePath)) ''type'' = ''Embedded'' \<and>
        mapGet (snd (detectTimestampByteAnalysis X filePath)) ''time'' = ''Unknown'' \<and>
        mapGet (snd (detectTimestampByteAnalysis X filePath)) ''authority'' = ''Unknown'')"
proof (intro conjI impI allI)
  assume "find (Contains content) timestampPatterns = None"
  then show "\<not> fst (detectTimestampByteAnalysis X filePath)"
    by (simp add: detectTimestampByteAnalysis_eq [OF assms])
next
  fix pattern
  assume f: "find (Contains content) timestampPatterns = Some pattern"
  show "fst (detectTimestampByteAnalysis X filePath)"
    by (rule detectTimestampByteAnalysis_type(1) [OF assms f])
  show "mapGet (snd (detectTimestampByteAnalysis X filePath)) ''type'' = timestampTypeOf pattern"
    by (rule detectTimestampByteAnalysis_type(2) [OF assms f])
next
  show "map timestampTypeOf timestampPatterns =
       [''RFC3161'', ''PKCS#7'', ''Standard'', ''Standard'', ''Standard'', ''Standard'', ''TSA'',
        ''Standard'', ''TSA'', ''Serpro TSA'', ''Serpro TSA'', ''ICP-Brasil'', ''Standard'',
        ''Standard'', ''Standard'', ''Embedded'']"
    by (rule timestampTypeOf_table)
next
  assume h: "Contains content ''/ByteRange'' \<and>
      (\<forall>p\<in>set (butlast timestampPatterns). \<not> Contains content p) \<and>
      (\<forall>p\<in>set timePatterns. \<not> Contains content p) \<and>
      (\<forall>p\<in>set authorityPatterns. \<not> Contains content p)"
  then have e: "detectTimestampByteAnalysis X filePath =
      (True, [''type'' \<mapsto> ''Embedded'', ''time'' \<mapsto> ''Unknown'', ''authority'' \<mapsto> ''Unknown''])"
    using byteRange_only [OF assms] by blast
  show "fst (detectTimestampByteAnalysis X filePath)"
    and "mapGet (snd (detectTimestampByteAnalysis X filePath)) ''type'' = ''Embedded''"
    and "mapGet (snd (detectTimestampByteAnalysis X filePath)) ''time'' = ''Unknown''"
    and "mapGet (snd (detectTimestampByteAnalysis X filePath)) ''authority'' = ''Unknown''"
    unfolding e by (simp_all add: mapGet_def)
qed

text \<open>
  C6, as stated, fails in its scenario: a file with \<^verbatim>\<open>/ByteRange\<close> and no authority or
  date marker, but with the PKCS#7 subfilter that a signed file carries, has the type
  \<^verbatim>\<open>PKCS#7\<close>, since that pattern comes first in the list.
\<close>

theorem byteRange_not_embedded_counterexample:
  "Contains ''/SubFilter/adbe.pkcs7.detached /ByteRange [0 10 20 30]'' ''/ByteRange'' \<and>
   filter (Contains ''/SubFilter/adbe.pkcs7.detached /ByteRange [0 10 20 30]'')
     (timePatterns @ authorityPatterns) = [] \<and>
   fst (detectTimestampByteAnalysis
     (sampleExternal (Some ''/SubFilter/adbe.pkcs7.detached /ByteRange [0 10 20 30]'')
        (Inl (Error ''encrypted''))) ''doc.pdf'') \<and>
   mapGet (snd (detectTimestampByteAnalysis
     (sampleExternal (Some ''/SubFilter/adbe.pkcs7.detached /ByteRange [0 10 20 30]'')
        (Inl (Error ''encrypted''))) ''doc.pdf'')) ''type'' = ''PKCS#7'' \<and>
   mapGet (snd (detectTimestampByteAnalysis
     (sampleExternal (Some ''/SubFilter/adbe.pkcs7.detached /ByteRange [0 10 20 30]'')
        (Inl (Error ''encrypted''))) ''doc.pdf'')) ''type'' \<noteq> ''Embedded''"
  by code_simp

theorem timestamp_first_match_witness:
  "fst (detectTimestampByteAnalysis
     (sampleExternal (Some ''/ByteRange [0 10 20 30]'') (Inl (Error ''encrypted''))) ''doc.pdf'') \<and>
   mapGet (snd (detectTimestampByteAnalysis
     (sampleExternal (Some ''/ByteRange [0 10 20 30]'') (Inl (Error ''encrypted''))) ''doc.pdf''))
     ''type'' = ''Embedded'' \<and>
   mapGet (snd (detectTimestampByteAnalysis
     (sampleExternal (Some ''/ByteRange [0 10 20 30]'') (Inl (Error ''encrypted''))) ''doc.pdf''))
     ''time'' = ''Unknown'' \<and>
   mapGet (snd (detectTimestampByteAnalysis
     (sampleExternal (Some ''/ByteRange [0 10 20 30]'') (Inl (Error ''encrypted''))) ''doc.pdf''))
     ''authority'' = ''Unknown'' \<and>
   \<not> fst (detectTimestampByteAnalysis
     (sampleExternal (Some ''%PDF-1.4'') (Inl (Error ''encrypted''))) ''doc.pdf'')"
proof -
  let ?c = "''/ByteRange [0 10 20 30]''"
  let ?X = "sampleExternal (Some ?c) (Inl (Error ''encrypted''))"
  let ?Y = "sampleExternal (Some ''%PDF-1.4'') (Inl (Error ''encrypted''))"
  have r: "ReadFile ?X ''doc.pdf'' = Inr ?c" by (simp add: sampleExternal_def)
  have ry: "ReadFile ?Y ''doc.pdf'' = Inr ''%PDF-1.4''" by (simp add: sampleExternal_def)
  have b: "Contains ?c ''/ByteRange''" by code_simp
  have h: "\<forall>p\<in>set (butlast timestampPatterns). \<not> Contains ?c p" by code_simp
  have t: "\<forall>p\<in>set timePatterns. \<not> Contains ?c p" by code_simp
  have a: "\<forall>p\<in>set authorityPatterns. \<not> Contains ?c p" by code_simp
  have n: "find (Contains ''%PDF-1.4'') timestampPatterns = None" by code_simp
  from timestamp_first_match [OF r] b h t a
  have "fst (detectTimestampByteAnalysis ?X ''doc.pdf'') \<and>
      mapGet (snd (detectTimestampByteAnalysis ?X ''doc.pdf'')) ''type'' = ''Embedded'' \<and>
      mapGet (snd (detectTimestampByteAnalysis ?X ''doc.pdf'')) ''time'' = ''Unknown'' \<and>
      mapGet (snd (detectTimestampByteAnalysis ?X ''doc.pdf'')) ''authority'' = ''Unknown''"
    by blast
  moreover from timestamp_first_match [OF ry] n
  have "\<not> fst (detectTimestampByteAnalysis ?Y ''doc.pdf'')"
    by blast
  ultimately show ?thesis by blast
qed

lemma timeAt_example:
  assumes "0 \<le> i" and "take 16 (drop (nat i) content) = ''D:20250606155827''"
  shows "timeAt content i = ''2025-06-06 15:58:27''"
proof -
  define d where "d = drop (nat i) content"
  define n where "n = nat ((if len content < i + 20 then len content else i + 20) - i)"
  define ts where "ts = take n d"
  from assms(2) have "length (take 16 d) = 16" by (simp add: d_def)
  then have ld: "16 \<le> length d" by simp
  then have lc: "i + 16 \<le> len content" using assms(1) by (simp add: d_def len_def)
  then have n16: "16 \<le> n" unfolding n_def by (auto split: if_splits)
  have "take 16 ts = take 16 d" using n16 by (simp add: ts_def min_def)
  with assms(2) have t16: "take 16 ts = ''D:20250606155827''" by (simp add: d_def)
  have "ts = take 16 ts @ drop 16 ts" by simp
  with t16 have tsr: "ts = ''D:20250606155827'' @ drop 16 ts" by simp
  have lts: "16 \<le> length ts" using n16 ld by (simp add: ts_def)
  have sl: "slice content i (if len content < i + 20 then len content else i + 20) = ts"
    by (simp add: slice_def ts_def n_def d_def)
  have parts: "slice ts 2 6 = ''2025''" "slice ts 6 8 = ''06''" "slice ts 8 10 = ''06''"
    "slice ts 10 12 = ''15''" "slice ts 12 14 = ''58''" "slice ts 14 16 = ''27''"
    "HasPrefix ts ''D:''"
    by (subst tsr, simp add: slice_def HasPrefix_def)+
  have l: "15 \<le> len ts" "16 \<le> len ts" using lts by (simp_all add: len_def)
  show ?thesis
    unfolding timeAt_def Let_def sl by (simp only: parts l if_True simp_thms) simp
qed

lemma scanTimePatterns_first:
  "Contains content ''D:202'' \<Longrightarrow>
   scanTimePatterns content timePatterns m =
     m(''time'' \<mapsto> timeAt content (Index content ''D:202''))"
  by (simp add: timePatterns_def Contains_def)

lemma setDefaults_time:
  "m ''time'' = Some v \<Longrightarrow> v \<noteq> [] \<Longrightarrow> mapGet (setDefaults m) ''time'' = v"
  by (simp add: setDefaults_def mapGet_def Let_def)

text \<open>
  C7, amended. For a file with a validated certifying signature, in which \<^verbatim>\<open>Serpro\<close> is
  the first pattern of the priority list that occurs and the first occurrence of
  \<^verbatim>\<open>D:202\<close> starts the text \<^verbatim>\<open>D:20250606155827\<close>, the record built for that signature
  is in the detail list and has type \<^verbatim>\<open>Certified\<close>, timestamp type \<^verbatim>\<open>Serpro TSA\<close> and
  timestamp time \<^verbatim>\<open>2025-06-06 15:58:27\<close>.
\<close>

theorem serpro_scenario:
  assumes "ReadFile X filePath = Inr content"
    and "ValidateSignatures X filePath True = Inr results"
    and "result \<in> set results" and "Certified result"
    and "find (Contains content) timestampPatterns = Some ''Serpro''"
    and "Contains content ''D:202''"
    and "take 16 (drop (nat (Index content ''D:202'')) content) = ''D:20250606155827''"
  shows "analyzeTimestamp X filePath (newSignatureInfo X result)
           \<in> set (Signatures (analyzeDigitalSignatures X filePath ctx info)) \<and>
         Type (analyzeTimestamp X filePath (newSignatureInfo X result)) = ''Certified'' \<and>
         HasTimestamp (analyzeTimestamp X filePath (newSignatureInfo X result)) \<and>
         TimestampType (analyzeTimestamp X filePath (newSignatureInfo X result)) = ''Serpro TSA'' \<and>
         TimestampTime (analyzeTimestamp X filePath (newSignatureInfo X result)) =
           ''2025-06-06 15:58:27''"
proof -
  from assms(3) have ne: "results \<noteq> []" by auto
  have mem: "analyzeTimestamp X filePath (newSignatureInfo X result)
      \<in> set (Signatures (analyzeDigitalSignatures X filePath ctx info))"
    using assms(3) by (simp add: analyze_results [OF assms(2) ne])
  have ty: "Type (analyzeTimestamp X filePath (newSignatureInfo X result)) = ''Certified''"
    using assms(4) by (simp add: analyzeTimestamp_Type newSignatureInfo_def)
  have p: "fst (detectTimestampByteAnalysis X filePath)"
    by (rule detectTimestampByteAnalysis_type(1) [OF assms(1,5)])
  have serpro: "timestampTypeOf ''Serpro'' = ''Serpro TSA''" by code_simp
  have tt: "mapGet (snd (detectTimestampByteAnalysis X filePath)) ''type'' = ''Serpro TSA''"
    using detectTimestampByteAnalysis_type(2) [OF assms(1,5)] serpro by simp
  from assms(6) have i0: "0 \<le> Index content ''D:202''" by (simp add: Contains_def)
  have tm: "mapGet (snd (detectTimestampByteAnalysis X filePath)) ''time'' = ''2025-06-06 15:58:27''"
    by (simp add: detectTimestampByteAnalysis_eq [OF assms(1)] assms(5)
        scanTimePatterns_first [OF assms(6)] timeAt_example [OF i0 assms(7)]
        scanAuthorityPatterns_other setDefaults_time)
  from p tt tm have
    "HasTimestamp (analyzeTimestamp X filePath (newSignatureInfo X result)) \<and>
     TimestampType (analyzeTimestamp X filePath (newSignatureInfo X result)) = ''Serpro TSA'' \<and>
     TimestampTime (analyzeTimestamp X filePath (newSignatureInfo X result)) = ''2025-06-06 15:58:27''"
    by (simp add: analyzeTimestamp_def Let_def)
  with mem ty show ?thesis by blast
qed

theorem serpro_scenario_witness:
  "Signatures (analyzeDigitalSignatures
      (sampleExternal (Some ''Serpro D:20250606155827'') (Inr [sampleResult True]))
      ''doc.pdf'' None newPDFInfo) =
     [analyzeTimestamp (sampleExternal (Some ''Serpro D:20250606155827'') (Inr [sampleResult True]))
        ''doc.pdf''
        (newSignatureInfo (sampleExternal (Some ''Serpro D:20250606155827'') (Inr [sampleResult True]))
           (sampleResult True))] \<and>
   Type (analyzeTimestamp (sampleExternal (Some ''Serpro D:20250606155827'') (Inr [sampleResult True]))
        ''doc.pdf''
        (newSignatureInfo (sampleExternal (Some ''Serpro D:20250606155827'') (Inr [sampleResult True]))
           (sampleResult True))) = ''Certified'' \<and>
   TimestampType (analyzeTimestamp (sampleExternal (Some ''Serpro D:20250606155827'') (Inr [sampleResult True]))
        ''doc.pdf''
        (newSignatureInfo (sampleExternal (Some ''Serpro D:20250606155827'') (Inr [sampleResult True]))
           (sampleResult True))) = ''Serpro TSA'' \<and>
   TimestampTime (analyzeTimestamp (sampleExternal (Some ''Serpro D:20250606155827'') (Inr [sampleResult True]))
        ''doc.pdf''
        (newSignatureInfo (sampleExternal (Some ''Serpro D:20250606155827'') (Inr [sampleResult True]))
           (sampleResult True))) = ''2025-06-06 15:58:27''"
proof -
  let ?c = "''Serpro D:20250606155827''"
  let ?X = "sampleExternal (Some ?c) (Inr [sampleResult True])"
  let ?a = "analyzeTimestamp ?X ''doc.pdf'' (newSignatureInfo ?X (sampleResult True))"
  have r: "ReadFile ?X ''doc.pdf'' = Inr ?c" by (simp add: sampleExternal_def)
  have v: "ValidateSignatures ?X ''doc.pdf'' True = Inr [sampleResult True]"
    by (simp add: sampleExternal_def)
  have m: "sampleResult True \<in> set [sampleResult True]" by simp
  have c: "Certified (sampleResult True)" by (simp add: sampleResult_def)
  have f: "find (Contains ?c) timestampPatterns = Some ''Serpro''" by code_simp
  have d: "Contains ?c ''D:202''" by code_simp
  have t: "take 16 (drop (nat (Index ?c ''D:202'')) ?c) = ''D:20250606155827''" by code_simp
  have sigs: "Signatures (analyzeDigitalSignatures ?X ''doc.pdf'' None newPDFInfo) = [?a]"
    by (simp add: analyze_results [OF v])
  have "Type ?a = ''Certified'' \<and> TimestampType ?a = ''Serpro TSA'' \<and>
      TimestampTime ?a = ''2025-06-06 15:58:27''"
    using serpro_scenario [OF r v m c f d t, of None newPDFInfo] by (simp only: simp_thms)
  with sigs show ?thesis by (simp only: simp_thms)
qed

text \<open>
  C7, as stated, fails: when the timestamp stands in the signature dictionary's
  \<^verbatim>\<open>/M(D:...)\<close> entry, the pattern \<^verbatim>\<open>/M(D:\<close> matches before \<^verbatim>\<open>Serpro\<close> and the type is
  \<^verbatim>\<open>Standard\<close>.
\<close>

theorem serpro_not_first_counterexample:
  "Contains ''/M(D:20250606155827) /Name(Assinador Serpro)'' ''Serpro'' \<and>
   Contains ''/M(D:20250606155827) /Name(Assinador Serpro)'' ''D:20250606155827'' \<and>
   Certified (sampleResult True) \<and>
   length (Signatures (analyzeDigitalSignatures
      (sampleExternal (Some ''/M(D:20250606155827) /Name(Assinador Serpro)'') (Inr [sampleResult True]))
      ''doc.pdf'' None newPDFInfo)) = 1 \<and>
   Type (hd (Signatures (analyzeDigitalSignatures
      (sampleExternal (Some ''/M(D:20250606155827) /Name(Assinador Serpro)'') (Inr [sampleResult True]))
      ''doc.pdf'' None newPDFInfo))) = ''Certified'' \<and>
   TimestampType (hd (Signatures (analyzeDigitalSignatures
      (sampleExternal (Some ''/M(D:20250606155827) /Name(Assinador Serpro)'') (Inr [sampleResult True]))
      ''doc.pdf'' None newPDFInfo))) = ''Standard'' \<and>
   TimestampType (hd (Signatures (analyzeDigitalSignatures
      (sampleExternal (Some ''/M(D:20250606155827) /Name(Assinador Serpro)'') (Inr [sampleResult True]))
      ''doc.pdf'' None newPDFInfo))) \<noteq> ''Serpro TSA''"
  by code_simp

end
